theory Spec2Isabelle
  imports Main
begin

section \<open>JavaScript values\<close>

text \<open>
  The tool handlers receive their arguments as \<open>unknown\<close>: whatever the JSON request
  carried, or \<open>undefined\<close> when the request had no arguments. Numbers are modelled as
  unbounded integers plus \<open>NaN\<close> (the product \<open>limit * 10\<close> of a non-numeric limit);
  fractional and infinite numbers are not modelled, nor is the rounding of doubles
  beyond \<open>2^53\<close>. An object is the list of its own properties, looked up with
  \<open>map_of\<close>.
\<close>

datatype jsnum = NaN | Fin int

datatype js_value =
    JUndefined
  | JNull
  | JBool bool
  | JNum jsnum
  | JStr string
  | JArr "js_value list"
  | JObj "(string \<times> js_value) list"

text \<open>What \<open>if (v)\<close> and \<open>!v\<close> test.\<close>

fun truthy :: "js_value \<Rightarrow> bool" where
  "truthy JUndefined = False"
| "truthy JNull = False"
| "truthy (JBool b) = b"
| "truthy (JNum NaN) = False"
| "truthy (JNum (Fin n)) = (n \<noteq> 0)"
| "truthy (JStr s) = (s \<noteq> [])"
| "truthy (JArr xs) = True"
| "truthy (JObj kvs) = True"

fun js_typeof :: "js_value \<Rightarrow> string" where
  "js_typeof JUndefined = ''undefined''"
| "js_typeof JNull = ''object''"
| "js_typeof (JBool b) = ''boolean''"
| "js_typeof (JNum n) = ''number''"
| "js_typeof (JStr s) = ''string''"
| "js_typeof (JArr xs) = ''object''"
| "js_typeof (JObj kvs) = ''object''"

text \<open>
  \<open>k in v\<close> and \<open>v.k\<close> for the property names the tools read (\<open>recipient\<close>, \<open>text\<close>,
  \<open>chatId\<close>, \<open>limit\<close>, \<open>unreadOnly\<close>): an array or a primitive has none of them.
\<close>

fun js_in :: "string \<Rightarrow> js_value \<Rightarrow> bool" where
  "js_in k (JObj kvs) = (map_of kvs k \<noteq> None)"
| "js_in k v = False"

fun get_prop :: "js_value \<Rightarrow> string \<Rightarrow> js_value" where
  "get_prop (JObj kvs) k = (case map_of kvs k of Some v \<Rightarrow> v | None \<Rightarrow> JUndefined)"
| "get_prop v k = JUndefined"

subsection \<open>Numbers and strings\<close>

definition digit_char :: "nat \<Rightarrow> char" where
  "digit_char d = char_of (48 + d)"

fun show_nat :: "nat \<Rightarrow> string" where
  "show_nat n = (if n < 10 then [digit_char n] else show_nat (n div 10) @ [digit_char (n mod 10)])"

declare show_nat.simps [simp del]

definition show_int :: "int \<Rightarrow> string" where
  "show_int i = (if i < 0 then CHR ''-'' # show_nat (nat (- i)) else show_nat (nat i))"

fun js_join :: "string \<Rightarrow> string list \<Rightarrow> string" where
  "js_join sep [] = []"
| "js_join sep [x] = x"
| "js_join sep (x # y # ys) = x @ sep @ js_join sep (y # ys)"

text \<open>
  \<open>String(v)\<close> and the conversion a template literal makes; \<open>None\<close> where it throws
  a \<open>TypeError\<close>. An array joins its elements with a comma, \<open>null\<close> and \<open>undefined\<close>
  elements as the empty string. A plain object is \<open>[object Object]\<close>, unless it has an
  own property \<open>toString\<close>: no value of a JSON document is callable, so the object
  then has no primitive value. The decimal form of a number is the one JavaScript prints
  below \<open>10^21\<close>.
\<close>

fun js_String :: "js_value \<Rightarrow> string option"
  and js_Strings :: "js_value list \<Rightarrow> string list option" where
  "js_String JUndefined = Some ''undefined''"
| "js_String JNull = Some ''null''"
| "js_String (JBool b) = Some (if b then ''true'' else ''false'')"
| "js_String (JNum NaN) = Some ''NaN''"
| "js_String (JNum (Fin n)) = Some (show_int n)"
| "js_String (JStr s) = Some s"
| "js_String (JArr xs) = map_option (js_join '','') (js_Strings xs)"
| "js_String (JObj kvs) = (if map_of kvs ''toString'' = None then Some ''[object Object]'' else None)"
| "js_Strings [] = Some []"
| "js_Strings (x # xs) =
     (case (case x of JUndefined \<Rightarrow> Some [] | JNull \<Rightarrow> Some [] | _ \<Rightarrow> js_String x) of
        None \<Rightarrow> None
      | Some s \<Rightarrow> map_option ((#) s) (js_Strings xs))"

text \<open>
  A thrown value is an \<open>Error\<close> with its message, or any other value, kept as what
  \<open>String\<close> makes of it.
\<close>

datatype js_exn = ErrorObj string | NonError string

fun error_message :: "js_exn \<Rightarrow> string" where
  "error_message (ErrorObj m) = m"
| "error_message (NonError s) = s"

text \<open>
  Three things of the JavaScript runtime are parameters of the model: the conversion of
  a string to a number (\<open>Number(s)\<close>), the locale-dependent rendering of a date, and the
  message of the \<open>TypeError\<close> thrown for an object without a primitive value.
\<close>

record runtime =
  stringToNumber :: "string \<Rightarrow> jsnum"
  toLocaleString :: "int \<Rightarrow> string"
  typeErrorMessage :: string

text \<open>The conversion of a template literal, with the exception it throws.\<close>

definition to_string :: "runtime \<Rightarrow> js_value \<Rightarrow> js_exn + string" where
  "to_string rt v = (case js_String v of None \<Rightarrow> Inl (ErrorObj (typeErrorMessage rt)) | Some s \<Rightarrow> Inr s)"

text \<open>
  The conversion \<open>limit * 10\<close> and \<open>slice\<close> make of their operand: an array or an
  object is converted to its string first, which throws where \<open>String\<close> does.
\<close>

fun js_ToNumber :: "runtime \<Rightarrow> js_value \<Rightarrow> js_exn + jsnum" where
  "js_ToNumber rt JUndefined = Inr NaN"
| "js_ToNumber rt JNull = Inr (Fin 0)"
| "js_ToNumber rt (JBool b) = Inr (Fin (if b then 1 else 0))"
| "js_ToNumber rt (JNum n) = Inr n"
| "js_ToNumber rt (JStr s) = Inr (stringToNumber rt s)"
| "js_ToNumber rt (JArr xs) =
     (case to_string rt (JArr xs) of Inl error \<Rightarrow> Inl error | Inr s \<Rightarrow> Inr (stringToNumber rt s))"
| "js_ToNumber rt (JObj kvs) =
     (case to_string rt (JObj kvs) of Inl error \<Rightarrow> Inl error | Inr s \<Rightarrow> Inr (stringToNumber rt s))"

fun js_times :: "jsnum \<Rightarrow> jsnum \<Rightarrow> jsnum" where
  "js_times (Fin a) (Fin b) = Fin (a * b)"
| "js_times a b = NaN"

text \<open>
  \<open>xs.slice(0, end)\<close>: the end is truncated to an integer (\<open>NaN\<close> to 0); a negative
  end counts from the end of the array.
\<close>

fun js_slice0 :: "jsnum \<Rightarrow> 'a list \<Rightarrow> 'a list" where
  "js_slice0 NaN xs = []"
| "js_slice0 (Fin n) xs =
     (if n < 0 then take (nat (int (length xs) + n)) xs else take (nat n) xs)"

text \<open>\<open>s || d\<close> on strings: the default replaces the empty string.\<close>

definition str_or :: "string \<Rightarrow> string \<Rightarrow> string" where
  "str_or s d = (if s = [] then d else s)"

section \<open>The messaging SDK\<close>

text \<open>
  A message as the SDK returns it, with the fields the client reads. \<open>date\<close> is a
  valid \<open>Date\<close>, as its milliseconds: an object, hence truthy, and compared by its
  number. \<open>msg_text\<close> is the field \<open>text\<close>, \<open>None\<close> for \<open>null\<close>.
\<close>

record sdk_message =
  msg_text :: "string option"
  sender :: string
  date :: int
  isFromMe :: bool
  isRead :: bool
  isGroupChat :: bool
  chatId :: string
  service :: string

record message_filter =
  excludeOwnMessages :: bool
  filter_sender :: "string option"
  filter_unreadOnly :: "bool option"
  filter_limit :: "js_value option"

text \<open>What \<open>getMessages\<close> resolves to: a bare array, or an object with or without \<open>messages\<close>.\<close>

datatype query_result = ResultArray "sdk_message list" | ResultObject "sdk_message list option"

text \<open>
  The SDK, as far as the client uses it: the recipient parser \<open>asRecipient\<close>, \<open>send\<close>
  and \<open>getMessages\<close>, each of which returns or throws. Handling one request calls each
  of them at most once, so the SDK of a request is a record of functions; what \<open>send\<close>
  changes in the message store is outside the model.
\<close>

record sdk =
  asRecipient :: "js_value \<Rightarrow> js_exn + string"
  send :: "string \<Rightarrow> js_value \<Rightarrow> js_exn + unit"
  getMessages :: "message_filter \<Rightarrow> js_exn + query_result"

text \<open>\<open>Array.isArray(result) ? result : (result as any).messages || []\<close>\<close>

fun messages_of :: "query_result \<Rightarrow> sdk_message list" where
  "messages_of (ResultArray ms) = ms"
| "messages_of (ResultObject (Some ms)) = ms"
| "messages_of (ResultObject None) = []"

text \<open>\<open>msg.text || '(no text)'\<close>\<close>

definition text_or_placeholder :: "sdk_message \<Rightarrow> string" where
  "text_or_placeholder msg = (case msg_text msg of None \<Rightarrow> ''(no text)'' | Some t \<Rightarrow> str_or t ''(no text)'')"

text \<open>The \<open>catch\<close> of every client method: \<open>throw new Error(prefix + cause)\<close>.\<close>

definition rethrow :: "string \<Rightarrow> js_exn + 'a \<Rightarrow> js_exn + 'a" where
  "rethrow prefix r =
     (case r of Inl error \<Rightarrow> Inl (ErrorObj (prefix @ error_message error)) | Inr v \<Rightarrow> Inr v)"

section \<open>PhotonClient: the aggregation\<close>

text \<open>
  A \<open>Map\<close> keeps its keys in insertion order; \<open>set\<close> on an existing key keeps the key's
  place. A \<open>Set\<close> of strings is the list of its members in insertion order.
\<close>

definition Map_has :: "('k \<times> 'v) list \<Rightarrow> 'k \<Rightarrow> bool" where
  "Map_has m k = (map_of m k \<noteq> None)"

fun Map_set :: "('k \<times> 'v) list \<Rightarrow> 'k \<Rightarrow> 'v \<Rightarrow> ('k \<times> 'v) list" where
  "Map_set [] k v = [(k, v)]"
| "Map_set ((k', v') # m) k v = (if k' = k then (k, v) # m else (k', v') # Map_set m k v)"

definition Set_add :: "'a list \<Rightarrow> 'a \<Rightarrow> 'a list" where
  "Set_add s x = (if x \<in> set s then s else s @ [x])"

record conversation =
  conv_chatId :: string
  lastMessage :: string
  lastDate :: int
  participants :: "string list"
  unreadCount :: nat

text \<open>
  The body of the loop of \<open>getConversations\<close> after the entry has been created: the
  entry \<open>conv\<close> is mutated in place. The last message changes on a strictly later
  date; participants and the unread count change on records not sent by the local user.
\<close>

definition update_conv :: "sdk_message \<Rightarrow> conversation \<Rightarrow> conversation" where
  "update_conv msg conv =
     (let conv1 = (if date msg > lastDate conv
                   then conv\<lparr>lastMessage := text_or_placeholder msg, lastDate := date msg\<rparr>
                   else conv)
      in if \<not> isFromMe msg
         then (let conv2 = conv1\<lparr>participants := Set_add (participants conv1) (sender msg)\<rparr>
               in if \<not> isRead msg then conv2\<lparr>unreadCount := unreadCount conv2 + 1\<rparr> else conv2)
         else conv1)"

text \<open>The entry \<open>conversationMap.set\<close> stores when the chat id is seen first.\<close>

definition new_conv :: "sdk_message \<Rightarrow> conversation" where
  "new_conv msg =
     \<lparr>conv_chatId = chatId msg, lastMessage = text_or_placeholder msg, lastDate = date msg,
      participants = [], unreadCount = 0\<rparr>"

text \<open>
  One iteration: create the entry if the map has none for the chat id, then update the
  entry that \<open>conversationMap.get\<close> returns.
\<close>

definition conv_loop_body :: "sdk_message \<Rightarrow> (string \<times> conversation) list \<Rightarrow> (string \<times> conversation) list" where
  "conv_loop_body msg cmap =
     (let cm = (if \<not> Map_has cmap (chatId msg)
                then Map_set cmap (chatId msg) (new_conv msg)
                else cmap)
      in case map_of cm (chatId msg) of
           None \<Rightarrow> cm
         | Some conv \<Rightarrow> Map_set cm (chatId msg) (update_conv msg conv))"

text \<open>\<open>for (const msg of messages) { ... }\<close> from the empty map.\<close>

definition conversationMap :: "sdk_message list \<Rightarrow> (string \<times> conversation) list" where
  "conversationMap messages = fold conv_loop_body messages []"

text \<open>
  \<open>Array.from(conversationMap.values()).sort(...).slice(0, limit)\<close>: the sort is stable
  and descending in \<open>lastDate\<close>.
\<close>

definition conversations :: "jsnum \<Rightarrow> sdk_message list \<Rightarrow> conversation list" where
  "conversations limit messages =
     js_slice0 limit (sort_key (\<lambda>conv. - lastDate conv) (map snd (conversationMap messages)))"

text \<open>
  The accumulators of the loop of \<open>getConversationDetails\<close>; \<open>d_lastDate\<close> is \<open>None\<close>
  for \<open>null\<close>.
\<close>

record details =
  d_participants :: "string list"
  d_lastMessage :: string
  d_lastDate :: "int option"
  d_unreadCount :: nat
  d_isGroupChat :: bool

definition details_init :: details where
  "details_init =
     \<lparr>d_participants = [], d_lastMessage = ''No messages'', d_lastDate = None,
      d_unreadCount = 0, d_isGroupChat = False\<rparr>"

definition details_loop_body :: "sdk_message \<Rightarrow> details \<Rightarrow> details" where
  "details_loop_body msg d =
     (let d1 = (if \<not> isFromMe msg
                then (let d' = d\<lparr>d_participants := Set_add (d_participants d) (sender msg)\<rparr>
                      in if \<not> isRead msg then d'\<lparr>d_unreadCount := d_unreadCount d' + 1\<rparr> else d')
                else d);
          d2 = (if (case d_lastDate d1 of None \<Rightarrow> True | Some prev \<Rightarrow> date msg > prev)
                then d1\<lparr>d_lastMessage := text_or_placeholder msg, d_lastDate := Some (date msg)\<rparr>
                else d1)
      in if isGroupChat msg then d2\<lparr>d_isGroupChat := True\<rparr> else d2)"

definition conversationDetails :: "sdk_message list \<Rightarrow> details" where
  "conversationDetails chatMessages = fold details_loop_body chatMessages details_init"

section \<open>PhotonClient: the four operations\<close>

definition newline :: string where
  "newline = [CHR 0x0A]"

text \<open>\<open>sendMessage(args)\<close>\<close>

definition sendMessage :: "runtime \<Rightarrow> sdk \<Rightarrow> js_value \<Rightarrow> js_exn + string" where
  "sendMessage rt sdk args = rethrow ''Failed to send message: ''
     (let recipient = get_prop args ''recipient'';
          txt = get_prop args ''text''
      in if \<not> truthy recipient \<or> \<not> truthy txt
         then Inl (ErrorObj ''Recipient and text are required'')
         else case asRecipient sdk recipient of
                Inl error \<Rightarrow>
                  (case to_string rt recipient of
                     Inl error' \<Rightarrow> Inl error'
                   | Inr r \<Rightarrow>
                       Inl (ErrorObj (''Invalid recipient format: '' @ r
                         @ ''. Expected phone number (e.g., +1234567890) or email address.'')))
              | Inr validatedRecipient \<Rightarrow>
                  (case send sdk validatedRecipient txt of
                     Inl error \<Rightarrow> Inl error
                   | Inr u \<Rightarrow>
                       (case to_string rt recipient of
                          Inl error \<Rightarrow> Inl error
                        | Inr r \<Rightarrow> Inr (''Message sent successfully to '' @ r))))"

text \<open>
  \<open>const { limit = 50 } = args\<close>: the default replaces \<open>undefined\<close> only.
\<close>

definition limit_or_default :: "js_value \<Rightarrow> js_value" where
  "limit_or_default args = (case get_prop args ''limit'' of JUndefined \<Rightarrow> JNum (Fin 50) | v \<Rightarrow> v)"

text \<open>The filter object \<open>readMessages\<close> builds before it calls the SDK.\<close>

definition read_filter :: "runtime \<Rightarrow> sdk \<Rightarrow> js_value \<Rightarrow> js_exn + message_filter" where
  "read_filter rt sdk args =
     (let recipient = get_prop args ''recipient'';
          limit = limit_or_default args;
          unreadOnly = get_prop args ''unreadOnly'';
          filter0 = \<lparr>excludeOwnMessages = False, filter_sender = None,
                     filter_unreadOnly = None, filter_limit = None\<rparr>
      in case (if truthy recipient
               then (case asRecipient sdk recipient of
                       Inl error \<Rightarrow>
                         (case to_string rt recipient of
                            Inl error' \<Rightarrow> Inl error'
                          | Inr r \<Rightarrow>
                              Inl (ErrorObj (''Invalid recipient format: '' @ r
                                @ ''. Expected phone number (e.g., +1234567890) or email address.'')))
                     | Inr validatedRecipient \<Rightarrow> Inr (filter0\<lparr>filter_sender := Some validatedRecipient\<rparr>))
               else Inr filter0) of
           Inl error \<Rightarrow> Inl error
         | Inr filter1 \<Rightarrow>
             (let filter2 = (if truthy unreadOnly then filter1\<lparr>filter_unreadOnly := Some True\<rparr> else filter1)
              in Inr (if truthy limit then filter2\<lparr>filter_limit := Some limit\<rparr> else filter2)))"

text \<open>
  One line of \<open>readMessages\<close>: \<open>[date] sender (service): text\<close>. The date of a
  message is a \<open>Date\<close>, so the branch \<open>Unknown date\<close> is not taken.
\<close>

definition format_message :: "runtime \<Rightarrow> sdk_message \<Rightarrow> string" where
  "format_message rt msg =
     (let date_str = toLocaleString rt (date msg);
          sender_str = (if isFromMe msg then ''You'' else str_or (sender msg) ''Unknown'');
          txt = text_or_placeholder msg;
          service_str = str_or (service msg) ''iMessage''
      in ''['' @ date_str @ ''] '' @ sender_str @ '' ('' @ service_str @ ''): '' @ txt)"

definition readMessages :: "runtime \<Rightarrow> sdk \<Rightarrow> js_value \<Rightarrow> js_exn + string" where
  "readMessages rt sdk args = rethrow ''Failed to read messages: ''
     (case read_filter rt sdk args of
        Inl error \<Rightarrow> Inl error
      | Inr filter' \<Rightarrow>
          (case getMessages sdk filter' of
             Inl error \<Rightarrow> Inl error
           | Inr result \<Rightarrow>
               (let messages = messages_of result
                in if messages = [] then Inr ''No messages found''
                   else Inr (js_join (newline @ newline) (map (format_message rt) messages)))))"

text \<open>
  \<open>getConversations(args)\<close>: only \<open>limit\<close> is read from the arguments. The query
  asks for \<open>limit * 10\<close> messages; the product converts the limit to a number, or
  throws.
\<close>

definition conversations_filter :: "jsnum \<Rightarrow> message_filter" where
  "conversations_filter n =
     \<lparr>excludeOwnMessages = False, filter_sender = None, filter_unreadOnly = None,
      filter_limit = Some (JNum (js_times n (Fin 10)))\<rparr>"

definition format_conversation :: "conversation \<Rightarrow> string" where
  "format_conversation conv =
     (let participants_str = str_or (js_join '', '' (participants conv)) ''Unknown'';
          unread = (if unreadCount conv > 0 then '' ('' @ show_nat (unreadCount conv) @ '' unread)'' else [])
      in ''Chat ID: '' @ conv_chatId conv @ newline
         @ ''Participants: '' @ participants_str @ newline
         @ ''Last Message: '' @ lastMessage conv @ unread)"

definition getConversations :: "runtime \<Rightarrow> sdk \<Rightarrow> js_value \<Rightarrow> js_exn + string" where
  "getConversations rt sdk args = rethrow ''Failed to get conversations: ''
     (let limit = limit_or_default args
      in case js_ToNumber rt limit of
           Inl error \<Rightarrow> Inl error
         | Inr n \<Rightarrow>
             (case getMessages sdk (conversations_filter n) of
                Inl error \<Rightarrow> Inl error
              | Inr result \<Rightarrow>
                  (let messages = messages_of result
                   in if messages = [] then Inr ''No conversations found''
                      else Inr (js_join (newline @ newline @ ''---'' @ newline @ newline)
                             (map format_conversation (conversations n messages))))))"

text \<open>\<open>getConversationDetails(chatId)\<close>\<close>

definition details_filter :: message_filter where
  "details_filter =
     \<lparr>excludeOwnMessages = False, filter_sender = None, filter_unreadOnly = None,
      filter_limit = Some (JNum (Fin 100))\<rparr>"

definition format_details :: "runtime \<Rightarrow> string \<Rightarrow> sdk_message list \<Rightarrow> details \<Rightarrow> string" where
  "format_details rt chat chatMessages d =
     (let participantsList = str_or (js_join '', '' (d_participants d)) ''Unknown'';
          lastDateStr = (case d_lastDate d of Some t \<Rightarrow> toLocaleString rt t | None \<Rightarrow> ''Unknown'')
      in ''Chat ID: '' @ chat @ newline
         @ ''Type: '' @ (if d_isGroupChat d then ''Group Chat'' else ''1-on-1'') @ newline
         @ ''Participants: '' @ participantsList @ newline
         @ ''Last Message: '' @ d_lastMessage d @ newline
         @ ''Last Message Date: '' @ lastDateStr @ newline
         @ ''Unread Count: '' @ show_nat (d_unreadCount d) @ newline
         @ ''Total Messages: '' @ show_nat (length chatMessages))"

definition getConversationDetails :: "runtime \<Rightarrow> sdk \<Rightarrow> string \<Rightarrow> js_exn + string" where
  "getConversationDetails rt sdk chat = rethrow ''Failed to get conversation details: ''
     (if chat = [] then Inl (ErrorObj ''Chat ID is required'')
      else case getMessages sdk details_filter of
             Inl error \<Rightarrow> Inl error
           | Inr result \<Rightarrow>
               (let allMessages = messages_of result;
                    chatMessages = filter (\<lambda>msg. chatId msg = chat) allMessages
                in if length chatMessages = 0
                   then Inr (''No messages found for chat ID: '' @ chat)
                   else Inr (format_details rt chat chatMessages (conversationDetails chatMessages))))"

section \<open>The tool handlers\<close>

record content_item =
  item_type :: string
  item_text :: string

record CallToolResult =
  content :: "content_item list"
  isError :: bool

text \<open>
  The end of every handler: the \<open>return\<close> of the \<open>try\<close> block with the client's text,
  or the \<open>catch\<close> block, which turns whatever was thrown into an error result.
\<close>

definition tool_result :: "js_exn + string \<Rightarrow> CallToolResult" where
  "tool_result r =
     (case r of
        Inr result \<Rightarrow> \<lparr>content = [\<lparr>item_type = ''text'', item_text = result\<rparr>], isError = False\<rparr>
      | Inl error \<Rightarrow>
          \<lparr>content = [\<lparr>item_type = ''text'', item_text = ''Error: '' @ error_message error\<rparr>],
           isError = True\<rparr>)"

text \<open>The two shapes of a result, named for the statements below.\<close>

definition text_result :: "string \<Rightarrow> CallToolResult" where
  "text_result t = \<lparr>content = [\<lparr>item_type = ''text'', item_text = t\<rparr>], isError = False\<rparr>"

definition error_result :: "string \<Rightarrow> CallToolResult" where
  "error_result cause =
     \<lparr>content = [\<lparr>item_type = ''text'', item_text = ''Error: '' @ cause\<rparr>], isError = True\<rparr>"

definition isSendMessageArgs :: "js_value \<Rightarrow> bool" where
  "isSendMessageArgs args \<longleftrightarrow>
     js_typeof args = ''object'' \<and> args \<noteq> JNull \<and>
     js_in ''recipient'' args \<and> js_in ''text'' args \<and>
     js_typeof (get_prop args ''recipient'') = ''string'' \<and>
     js_typeof (get_prop args ''text'') = ''string''"

definition isReadMessagesArgs :: "js_value \<Rightarrow> bool" where
  "isReadMessagesArgs args \<longleftrightarrow> js_typeof args = ''object'' \<and> args \<noteq> JNull"

definition isGetConversationsArgs :: "js_value \<Rightarrow> bool" where
  "isGetConversationsArgs args \<longleftrightarrow> js_typeof args = ''object'' \<and> args \<noteq> JNull"

definition handleSendMessageTool :: "runtime \<Rightarrow> sdk \<Rightarrow> js_value \<Rightarrow> CallToolResult" where
  "handleSendMessageTool rt client args = tool_result
     (if \<not> truthy args then Inl (ErrorObj ''No arguments provided'')
      else if \<not> isSendMessageArgs args
      then Inl (ErrorObj ''Invalid arguments for photon_send_message. Required: recipient, text'')
      else sendMessage rt client args)"

definition handleReadMessagesTool :: "runtime \<Rightarrow> sdk \<Rightarrow> js_value \<Rightarrow> CallToolResult" where
  "handleReadMessagesTool rt client args = tool_result
     (if \<not> truthy args then Inl (ErrorObj ''No arguments provided'')
      else if \<not> isReadMessagesArgs args
      then Inl (ErrorObj ''Invalid arguments for photon_read_messages'')
      else readMessages rt client args)"

definition handleGetConversationsTool :: "runtime \<Rightarrow> sdk \<Rightarrow> js_value \<Rightarrow> CallToolResult" where
  "handleGetConversationsTool rt client args = tool_result
     (if \<not> truthy args then Inl (ErrorObj ''No arguments provided'')
      else if \<not> isGetConversationsArgs args
      then Inl (ErrorObj ''Invalid arguments for photon_get_conversations'')
      else getConversations rt client args)"

definition handleGetConversationDetailsTool :: "runtime \<Rightarrow> sdk \<Rightarrow> js_value \<Rightarrow> CallToolResult" where
  "handleGetConversationDetailsTool rt client args = tool_result
     (if \<not> truthy args \<or> js_typeof args \<noteq> ''object'' \<or> \<not> js_in ''chatId'' args
      then Inl (ErrorObj ''chatId is required'')
      else (let chat = get_prop args ''chatId''
            in case chat of
                 JStr chatId' \<Rightarrow> getConversationDetails rt client chatId'
               | _ \<Rightarrow> Inl (ErrorObj ''chatId must be a string'')))"

section \<open>The dispatcher\<close>






section \<open>The aggregation as the specification words it\<close>

text \<open>
  The record of a conversation that decides its last message: the first one, in the order
  of the snapshot, whose timestamp no other record of the conversation exceeds.
\<close>

definition first_latest :: "sdk_message list \<Rightarrow> sdk_message option" where
  "first_latest ms = find (\<lambda>m. \<forall>m' \<in> set ms. date m' \<le> date m) ms"

text \<open>The distinct elements of a list, in the order of their first occurrence.\<close>

fun uniq :: "'a list \<Rightarrow> 'a list" where
  "uniq [] = []"
| "uniq (x # xs) = x # uniq (filter (\<lambda>y. y \<noteq> x) xs)"

text \<open>
  The summary of conversation \<open>k\<close>: last message and timestamp from the first latest
  record, the senders of the records not sent by the local user, and the number of those
  that are unread.
\<close>

definition spec_summary :: "string \<Rightarrow> sdk_message list \<Rightarrow> conversation" where
  "spec_summary k messages =
     (let records = filter (\<lambda>m. chatId m = k) messages
      in \<lparr>conv_chatId = k,
          lastMessage = (case first_latest records of Some m \<Rightarrow> text_or_placeholder m | None \<Rightarrow> []),
          lastDate = (case first_latest records of Some m \<Rightarrow> date m | None \<Rightarrow> 0),
          participants = uniq (map sender (filter (\<lambda>m. \<not> isFromMe m) records)),
          unreadCount = length (filter (\<lambda>m. \<not> isFromMe m \<and> \<not> isRead m) records)\<rparr>)"

text \<open>Group: one summary per conversation id, in the order the ids first appear.\<close>

definition spec_groupByConversation :: "sdk_message list \<Rightarrow> conversation list" where
  "spec_groupByConversation messages = map (\<lambda>k. spec_summary k messages) (uniq (map chatId messages))"


text \<open>
  The validation of read-messages as the specification words it: if present, \<open>limit\<close>
  must be a number, \<open>unreadOnly\<close> a boolean, \<open>recipient\<close> a string. An argument
  object is mistyped when a field is present with another type.
\<close>

definition spec_read_field_types :: "(string \<times> string) list" where
  "spec_read_field_types = [(''limit'', ''number''), (''unreadOnly'', ''boolean''), (''recipient'', ''string'')]"

definition spec_read_args_mistyped :: "js_value \<Rightarrow> bool" where
  "spec_read_args_mistyped args =
     list_ex (\<lambda>(field, ty). js_in field args \<and> js_typeof (get_prop args field) \<noteq> ty) spec_read_field_types"

subsection \<open>Auxiliary notions for the proofs\<close>

text \<open>The record a single pass holds as the latest, starting from \<open>b\<close>.\<close>

fun later :: "sdk_message \<Rightarrow> sdk_message list \<Rightarrow> sdk_message" where
  "later b [] = b"
| "later b (m # ms) = later (if date m > date b then m else b) ms"

text \<open>\<open>r\<close> is in \<open>xs\<close>, everything before it is strictly older, nothing after it is newer.\<close>

definition splits_at :: "sdk_message list \<Rightarrow> sdk_message \<Rightarrow> bool" where
  "splits_at xs r \<longleftrightarrow>
     (\<exists>pre post. xs = pre @ r # post \<and> (\<forall>p \<in> set pre. date p < date r) \<and> (\<forall>p \<in> set post. date p \<le> date r))"

section \<open>Example inputs\<close>

text \<open>
  A snapshot of three records in two conversations, \<open>a\<close> and \<open>b\<close>: the two records
  of \<open>a\<close> carry the same timestamp, and the second one was sent by the local user.
\<close>

definition example_messages :: "sdk_message list" where
  "example_messages =
     [\<lparr>msg_text = Some ''first'', sender = ''alice'', date = 10, isFromMe = False, isRead = False,
       isGroupChat = False, chatId = ''a'', service = ''iMessage''\<rparr>,
      \<lparr>msg_text = Some ''second'', sender = ''me'', date = 10, isFromMe = True, isRead = True,
       isGroupChat = False, chatId = ''a'', service = ''iMessage''\<rparr>,
      \<lparr>msg_text = Some ''newest'', sender = ''bob'', date = 20, isFromMe = False, isRead = True,
       isGroupChat = False, chatId = ''b'', service = ''SMS''\<rparr>]"

text \<open>A runtime, an SDK that answers every query with one snapshot, and an SDK that fails.\<close>

definition example_runtime :: runtime where
  "example_runtime =
     \<lparr>stringToNumber = (\<lambda>s. NaN), toLocaleString = show_int,
      typeErrorMessage = ''Cannot convert object to primitive value''\<rparr>"

definition example_sdk :: "sdk_message list \<Rightarrow> sdk" where
  "example_sdk msgs =
     \<lparr>asRecipient = (\<lambda>v. case v of JStr r \<Rightarrow> Inr r | _ \<Rightarrow> Inl (ErrorObj ''not a recipient'')), send = (\<lambda>r t. Inr ()),
      getMessages = (\<lambda>f. Inr (ResultArray msgs))\<rparr>"

definition failing_sdk :: sdk where
  "failing_sdk =
     \<lparr>asRecipient = (\<lambda>v. case v of JStr r \<Rightarrow> Inr r | _ \<Rightarrow> Inl (ErrorObj ''not a recipient'')), send = (\<lambda>r t. Inl (ErrorObj ''not delivered'')),
      getMessages = (\<lambda>f. Inl (ErrorObj ''database is locked''))\<rparr>"

section \<open>Lemmas on the map and the loops\<close>

lemma map_of_Map_set: "map_of (Map_set m k v) = (map_of m)(k \<mapsto> v)"
  by (induction m) (auto simp: fun_eq_iff)

lemma keys_Map_set:
  "map fst (Map_set m k v) = (if k \<in> set (map fst m) then map fst m else map fst m @ [k])"
  by (induction m) force+

lemma Map_has_iff: "Map_has m k \<longleftrightarrow> k \<in> set (map fst m)"
  by (simp add: Map_has_def map_of_eq_None_iff)

lemma map_of_conv_loop_body:
  "map_of (conv_loop_body msg cm) =
     (map_of cm)(chatId msg \<mapsto> update_conv msg (case map_of cm (chatId msg) of None \<Rightarrow> new_conv msg | Some c \<Rightarrow> c))"
  by (auto simp: conv_loop_body_def Map_has_def map_of_Map_set Let_def fun_eq_iff split: option.splits)

lemma keys_conv_loop_body:
  "map fst (conv_loop_body msg cm) = Set_add (map fst cm) (chatId msg)"
  by (auto simp: conv_loop_body_def Map_has_iff map_of_Map_set keys_Map_set Let_def Set_add_def map_of_eq_None_iff
      split: option.splits)

lemma map_of_fold_conv:
  "map_of (fold conv_loop_body msgs cm) k =
     (case filter (\<lambda>m. chatId m = k) msgs of
        [] \<Rightarrow> map_of cm k
      | m # ms \<Rightarrow> Some (fold update_conv (m # ms) (case map_of cm k of None \<Rightarrow> new_conv m | Some c \<Rightarrow> c)))"
proof (induction msgs arbitrary: cm)
  case Nil
  then show ?case by simp
next
  case (Cons a msgs)
  show ?case
    by (cases "chatId a = k") (auto simp: Cons.IH map_of_conv_loop_body split: list.splits option.splits)
qed

lemma keys_fold_conv:
  "map fst (fold conv_loop_body msgs cm) = fold (\<lambda>m ks. Set_add ks (chatId m)) msgs (map fst cm)"
  by (induction msgs arbitrary: cm) (auto simp: keys_conv_loop_body)

lemma unreadCount_fold:
  "unreadCount (fold update_conv ms c) =
     unreadCount c + length (filter (\<lambda>m. \<not> isFromMe m \<and> \<not> isRead m) ms)"
  by (induction ms arbitrary: c) (auto simp: update_conv_def Let_def)

lemma participants_fold:
  "set (participants (fold update_conv ms c)) =
     set (participants c) \<union> sender ` {m \<in> set ms. \<not> isFromMe m}"
  by (induction ms arbitrary: c) (auto simp: update_conv_def Let_def Set_add_def)

lemma conv_chatId_fold: "conv_chatId (fold update_conv ms c) = conv_chatId c"
  by (induction ms arbitrary: c) (auto simp: update_conv_def Let_def)

lemma splits_atI:
  "xs = pre @ r # post \<Longrightarrow> \<forall>p \<in> set pre. date p < date r \<Longrightarrow> \<forall>p \<in> set post. date p \<le> date r
   \<Longrightarrow> splits_at xs r"
  unfolding splits_at_def by blast

lemma splits_at_max: "splits_at xs r \<Longrightarrow> m \<in> set xs \<Longrightarrow> date m \<le> date r"
  unfolding splits_at_def by force

lemma splits_at_newer:
  assumes "splits_at (m # ms) r" "date b < date m"
  shows "splits_at (b # m # ms) r"
proof -
  from assms(1) obtain pre post where
    d: "m # ms = pre @ r # post" and
    p: "\<forall>p \<in> set pre. date p < date r" and
    q: "\<forall>p \<in> set post. date p \<le> date r"
    unfolding splits_at_def by blast
  have "date m \<le> date r" using splits_at_max [OF assms(1), of m] by simp
  then have B: "\<forall>p \<in> set (b # pre). date p < date r" using p assms(2) by simp
  have A: "b # m # ms = (b # pre) @ r # post" using d by simp
  show ?thesis by (rule splits_atI [OF A B q])
qed

lemma splits_at_older:
  assumes "splits_at (b # ms) r" "date m \<le> date b"
  shows "splits_at (b # m # ms) r"
proof -
  from assms(1) obtain pre post where
    d: "b # ms = pre @ r # post" and
    p: "\<forall>p \<in> set pre. date p < date r" and
    q: "\<forall>p \<in> set post. date p \<le> date r"
    unfolding splits_at_def by blast
  show ?thesis
  proof (cases pre)
    case Nil
    then have e: "r = b" "post = ms" using d by simp_all
    have "b # m # ms = [] @ r # (m # ms)" using e by simp
    moreover have "\<forall>p \<in> set []. date p < date r" by simp
    moreover have "\<forall>p \<in> set (m # ms). date p \<le> date r" using q e assms(2) by simp
    ultimately show ?thesis by (rule splits_atI)
  next
    case (Cons b' pre')
    then have b': "b' = b" and ms: "ms = pre' @ r # post" using d by simp_all
    have "date b < date r" using p Cons b' by simp
    then have B: "\<forall>p \<in> set (b # m # pre'). date p < date r" using p Cons assms(2) by simp
    have A: "b # m # ms = (b # m # pre') @ r # post" using ms by simp
    show ?thesis by (rule splits_atI [OF A B q])
  qed
qed

lemma later_split: "splits_at (b # ms) (later b ms)"
proof (induction ms arbitrary: b)
  case Nil
  have "[b] = [] @ b # []" by simp
  then have "splits_at [b] b" by (rule splits_atI) simp_all
  then show ?case by simp
next
  case (Cons m ms)
  show ?case
  proof (cases "date m > date b")
    case True
    then show ?thesis using splits_at_newer [OF Cons.IH [of m] True] by simp
  next
    case False
    then have "date m \<le> date b" by simp
    from splits_at_older [OF Cons.IH [of b] this] show ?thesis using False by simp
  qed
qed

lemma find_first_max:
  assumes "splits_at xs r"
  shows "first_latest xs = Some r"
proof -
  from assms obtain pre post where
    d: "xs = pre @ r # post" and
    p: "\<forall>p \<in> set pre. date p < date r" and
    q: "\<forall>p \<in> set post. date p \<le> date r"
    unfolding splits_at_def by blast
  define P where "P = (\<lambda>m::sdk_message. \<forall>m' \<in> set xs. date m' \<le> date m)"
  have a: "P r" unfolding P_def using splits_at_max [OF assms] by blast
  have "r \<in> set xs" using d by simp
  then have b: "\<forall>p \<in> set pre. \<not> P p" unfolding P_def using p by force
  have "find P (pre @ r # post) = Some r"
    using a b by (induction pre) simp_all
  then show ?thesis using d by (simp add: first_latest_def P_def)
qed

lemma first_latest_later: "first_latest (b # ms) = Some (later b ms)"
  by (rule find_first_max [OF later_split])

lemma last_fold:
  "lastMessage c = text_or_placeholder b \<Longrightarrow> lastDate c = date b \<Longrightarrow>
   lastMessage (fold update_conv ms c) = text_or_placeholder (later b ms) \<and>
   lastDate (fold update_conv ms c) = date (later b ms)"
proof (induction ms arbitrary: b c)
  case Nil
  then show ?case by simp
next
  case (Cons m ms)
  have "lastMessage (update_conv m c) = text_or_placeholder (if date m > date b then m else b)"
       "lastDate (update_conv m c) = date (if date m > date b then m else b)"
    using Cons.prems by (simp_all add: update_conv_def Let_def)
  from Cons.IH [OF this] show ?case by simp
qed

lemma last_conversation:
  "lastMessage (fold update_conv (m # ms) (new_conv m)) = text_or_placeholder (later m ms) \<and>
   lastDate (fold update_conv (m # ms) (new_conv m)) = date (later m ms)"
  using last_fold [of "new_conv m" m "m # ms"] by (simp add: new_conv_def)

lemma uniq_filter: "uniq (filter P xs) = filter P (uniq xs)"
proof (induction xs rule: uniq.induct)
  case 1
  show ?case by simp
next
  case (2 x xs)
  have c: "filter (\<lambda>y. y \<noteq> x) (filter P xs) = filter P (filter (\<lambda>y. y \<noteq> x) xs)"
    by (induction xs) auto
  have n: "\<not> P x \<Longrightarrow> filter P (filter (\<lambda>y. y \<noteq> x) xs) = filter P xs"
    by (induction xs) auto
  show ?case
  proof (cases "P x")
    case True
    then show ?thesis using 2 c by simp
  next
    case False
    then show ?thesis using 2 n by simp
  qed
qed

lemma Set_add_old: "x \<in> set s \<Longrightarrow> Set_add s x = s"
  by (simp add: Set_add_def)

lemma Set_add_new: "x \<notin> set s \<Longrightarrow> Set_add s x = s @ [x]"
  by (simp add: Set_add_def)

lemma set_uniq: "set (uniq xs) = set xs"
  by (induction xs rule: uniq.induct) auto

lemma distinct_uniq: "distinct (uniq xs)"
  by (induction xs rule: uniq.induct) (auto simp: set_uniq)

lemma fold_Set_add: "fold (\<lambda>x s. Set_add s x) xs s = s @ uniq (filter (\<lambda>x. x \<notin> set s) xs)"
proof (induction xs arbitrary: s)
  case Nil
  show ?case by simp
next
  case (Cons x xs)
  show ?case
  proof (cases "x \<in> set s")
    case True
    then show ?thesis by (simp add: Cons.IH Set_add_old)
  next
    case False
    have "filter (\<lambda>y. y \<notin> set (s @ [x])) xs = filter (\<lambda>y. y \<noteq> x) (filter (\<lambda>y. y \<notin> set s) xs)"
      by (induction xs) auto
    then show ?thesis using False by (simp add: Cons.IH Set_add_new)
  qed
qed

lemma participants_fold_list:
  "participants (fold update_conv ms c) =
     fold (\<lambda>x s. Set_add s x) (map sender (filter (\<lambda>m. \<not> isFromMe m) ms)) (participants c)"
  by (induction ms arbitrary: c) (auto simp: update_conv_def Let_def)

lemma keys_conversationMap: "map fst (conversationMap msgs) = uniq (map chatId msgs)"
proof -
  have "fold (\<lambda>m ks. Set_add ks (chatId m)) ms ks = fold (\<lambda>x s. Set_add s x) (map chatId ms) ks"
    for ms :: "sdk_message list" and ks
    by (induction ms arbitrary: ks) auto
  then have "map fst (conversationMap msgs) = fold (\<lambda>x s. Set_add s x) (map chatId msgs) []"
    by (simp add: conversationMap_def keys_fold_conv)
  then show ?thesis
    by (simp add: fold_Set_add)
qed

lemma filter_Cons_head:
  assumes "filter P xs = y # ys"
  shows "P y \<and> y \<in> set xs"
proof -
  have "y \<in> set (filter P xs)" using assms by simp
  then show ?thesis by simp
qed

lemma accumulate_eq_spec:
  assumes "filter (\<lambda>m. chatId m = k) msgs = m # ms"
  shows "fold update_conv (m # ms) (new_conv m) = spec_summary k msgs"
proof -
  define c where "c = fold update_conv (m # ms) (new_conv m)"
  have k: "chatId m = k" using filter_Cons_head [OF assms] by simp
  have 1: "conv_chatId c = k"
    using k by (simp add: c_def conv_chatId_fold new_conv_def del: fold.simps)
  have 2: "unreadCount c = length (filter (\<lambda>m. \<not> isFromMe m \<and> \<not> isRead m) (m # ms))"
    by (simp add: c_def unreadCount_fold new_conv_def del: fold.simps)
  have 3: "participants c = uniq (map sender (filter (\<lambda>m. \<not> isFromMe m) (m # ms)))"
    by (simp add: c_def participants_fold_list fold_Set_add new_conv_def del: fold.simps)
  have 4: "lastMessage c = text_or_placeholder (later m ms)" "lastDate c = date (later m ms)"
    unfolding c_def using last_conversation [of m ms] by blast+
  have 5: "first_latest (m # ms) = Some (later m ms)"
    by (rule first_latest_later)
  have "c = spec_summary k msgs"
    by (rule conversation.equality) (simp_all add: spec_summary_def assms 1 2 3 4 5)
  then show ?thesis by (simp only: c_def)
qed

lemma map_of_conversationMap:
  "map_of (conversationMap msgs) k =
     (if k \<in> set (map chatId msgs) then Some (spec_summary k msgs) else None)"
proof (cases "filter (\<lambda>m. chatId m = k) msgs")
  case Nil
  then have "k \<notin> set (map chatId msgs)" by (auto simp: filter_empty_conv)
  then show ?thesis using Nil by (simp add: conversationMap_def map_of_fold_conv)
next
  case (Cons m ms)
  then have "k \<in> set (map chatId msgs)" using filter_Cons_head [OF Cons] by force
  then show ?thesis using Cons accumulate_eq_spec [OF Cons]
    by (simp add: conversationMap_def map_of_fold_conv del: fold.simps)
qed

lemma alist_by_keys: "distinct (map fst m) \<Longrightarrow> map snd m = map (\<lambda>k. the (map_of m k)) (map fst m)"
proof (induction m)
  case Nil
  show ?case by simp
next
  case (Cons p m)
  obtain a b where p: "p = (a, b)" by (cases p)
  have a: "a \<notin> set (map fst m)" and d: "distinct (map fst m)" using Cons.prems p by simp_all
  have "map (\<lambda>k. the (map_of (p # m) k)) (map fst m) = map (\<lambda>k. the (map_of m k)) (map fst m)"
    by (rule map_cong) (use a p in auto)
  then show ?case using Cons.IH [OF d] p by simp
qed

lemma conversationMap_refines: "map snd (conversationMap msgs) = spec_groupByConversation msgs"
proof -
  have d: "distinct (map fst (conversationMap msgs))"
    by (simp add: keys_conversationMap distinct_uniq)
  have "map (\<lambda>k. the (map_of (conversationMap msgs) k)) (uniq (map chatId msgs)) =
        map (\<lambda>k. spec_summary k msgs) (uniq (map chatId msgs))"
    by (rule map_cong) (simp_all add: map_of_conversationMap set_uniq)
  then show ?thesis
    using alist_by_keys [OF d] by (simp add: spec_groupByConversation_def keys_conversationMap)
qed

lemma in_conversationMap:
  assumes "(k, c) \<in> set (conversationMap msgs)"
  shows "k \<in> set (map chatId msgs) \<and> c = spec_summary k msgs"
proof -
  have d: "distinct (map fst (conversationMap msgs))"
    by (simp add: keys_conversationMap distinct_uniq)
  have "map_of (conversationMap msgs) k = Some c"
    using assms d by simp
  then show ?thesis by (simp add: map_of_conversationMap split: if_splits)
qed

lemma d_unreadCount_fold:
  "d_unreadCount (fold details_loop_body ms d) =
     d_unreadCount d + length (filter (\<lambda>m. \<not> isFromMe m \<and> \<not> isRead m) ms)"
  by (induction ms arbitrary: d) (simp_all add: details_loop_body_def Let_def)

lemma d_participants_fold:
  "d_participants (fold details_loop_body ms d) =
     fold (\<lambda>x s. Set_add s x) (map sender (filter (\<lambda>m. \<not> isFromMe m) ms)) (d_participants d)"
  by (induction ms arbitrary: d) (simp_all add: details_loop_body_def Let_def)

lemma d_isGroupChat_fold:
  "d_isGroupChat (fold details_loop_body ms d) = (d_isGroupChat d \<or> (\<exists>m \<in> set ms. isGroupChat m))"
  by (induction ms arbitrary: d) (auto simp: details_loop_body_def Let_def)

lemma d_last_fold:
  "d_lastMessage d = text_or_placeholder b \<Longrightarrow> d_lastDate d = Some (date b) \<Longrightarrow>
   d_lastMessage (fold details_loop_body ms d) = text_or_placeholder (later b ms) \<and>
   d_lastDate (fold details_loop_body ms d) = Some (date (later b ms))"
proof (induction ms arbitrary: b d)
  case Nil
  then show ?case by simp
next
  case (Cons m ms)
  have "d_lastMessage (details_loop_body m d) = text_or_placeholder (if date m > date b then m else b)"
       "d_lastDate (details_loop_body m d) = Some (date (if date m > date b then m else b))"
    using Cons.prems by (simp_all add: details_loop_body_def Let_def)
  from Cons.IH [OF this] show ?case by simp
qed

lemma d_last_conversationDetails:
  "d_lastMessage (conversationDetails (m # ms)) = text_or_placeholder (later m ms) \<and>
   d_lastDate (conversationDetails (m # ms)) = Some (date (later m ms))"
proof -
  have "d_lastMessage (details_loop_body m details_init) = text_or_placeholder m"
       "d_lastDate (details_loop_body m details_init) = Some (date m)"
    by (simp_all add: details_loop_body_def details_init_def Let_def)
  from d_last_fold [OF this] show ?thesis by (simp add: conversationDetails_def)
qed

lemma set_fold_Set_add: "set (fold (\<lambda>x s. Set_add s x) xs s) = set s \<union> set xs"
  by (simp add: fold_Set_add set_uniq) auto


lemma js_slice0_take: "\<exists>j. js_slice0 lim xs = take j xs"
proof (cases lim)
  case NaN
  have "js_slice0 NaN xs = take 0 xs" by simp
  then show ?thesis using NaN by blast
next
  case (Fin n)
  then show ?thesis by (cases "n < 0") auto
qed






lemma conversationMap_entry:
  assumes "k \<in> chatId ` set messages"
  shows "map_of (conversationMap messages) k = Some (spec_summary k messages)"
  using assms by (simp add: map_of_conversationMap)

lemmas eval_defs = conversationMap_def conv_loop_body_def Map_has_def update_conv_def new_conv_def
  Set_add_def text_or_placeholder_def str_or_def example_messages_def conversationDetails_def
  details_loop_body_def details_init_def Let_def

lemma first_latest_nonempty:
  assumes "ms \<noteq> []"
  shows "\<exists>m. first_latest ms = Some m"
proof -
  obtain r rest where "ms = r # rest" using assms by (cases ms) auto
  then show ?thesis using first_latest_later [of r rest] by simp
qed

lemma participants_spec_summary:
  "set (participants (spec_summary k messages)) =
     sender ` {m \<in> set messages. chatId m = k \<and> \<not> isFromMe m}"
  by (auto simp: spec_summary_def Let_def set_uniq)

lemma participants_conversationDetails:
  "set (d_participants (conversationDetails chatMessages)) =
     sender ` {m \<in> set chatMessages. \<not> isFromMe m}"
  by (auto simp: conversationDetails_def d_participants_fold set_fold_Set_add details_init_def)


subsection \<open>Lemmas on the handlers\<close>

lemma tool_result_Inl: "tool_result (Inl e) = error_result (error_message e)"
  by (simp add: tool_result_def error_result_def)

lemma tool_result_Inr: "tool_result (Inr t) = text_result t"
  by (simp add: tool_result_def text_result_def)

lemma send_accepted:
  assumes "\<not> isError (handleSendMessageTool rt client (JObj kvs))"
  shows "\<exists>r t. map_of kvs ''recipient'' = Some (JStr r) \<and> map_of kvs ''text'' = Some (JStr t) \<and>
           r \<noteq> [] \<and> t \<noteq> []"
proof -
  have g: "isSendMessageArgs (JObj kvs)"
    using assms by (auto simp: handleSendMessageTool_def tool_result_def split: if_splits)
  then obtain rv tv where rv: "map_of kvs ''recipient'' = Some rv" and tv: "map_of kvs ''text'' = Some tv"
    by (auto simp: isSendMessageArgs_def)
  have "js_typeof rv = ''string''" "js_typeof tv = ''string''"
    using g rv tv by (simp_all add: isSendMessageArgs_def)
  then obtain r t where r: "rv = JStr r" and t: "tv = JStr t"
    by (cases rv; cases tv) simp_all
  have "\<not> isError (tool_result (sendMessage rt client (JObj kvs)))"
    using assms g by (simp add: handleSendMessageTool_def)
  then have "r \<noteq> [] \<and> t \<noteq> []"
    using rv tv r t by (auto simp: sendMessage_def tool_result_def rethrow_def)
  then show ?thesis using rv tv r t by simp
qed

lemma read_filter_depends:
  assumes "get_prop a ''recipient'' = get_prop b ''recipient''"
    "get_prop a ''limit'' = get_prop b ''limit''"
    "truthy (get_prop a ''unreadOnly'') = truthy (get_prop b ''unreadOnly'')"
  shows "read_filter rt client a = read_filter rt client b"
  by (simp only: read_filter_def limit_or_default_def Let_def assms)

lemma getConversations_output:
  assumes "js_ToNumber rt (limit_or_default args) = Inr n"
    "getMessages client (conversations_filter n) = Inr result"
    "messages_of result \<noteq> []"
  shows "getConversations rt client args =
    Inr (js_join (newline @ newline @ ''---'' @ newline @ newline)
          (map format_conversation (conversations n (messages_of result))))"
  using assms by (simp add: getConversations_def rethrow_def)

lemma getConversationDetails_output:
  assumes "chat \<noteq> []" "getMessages client details_filter = Inr result"
    "filter (\<lambda>msg. chatId msg = chat) (messages_of result) \<noteq> []"
  shows "getConversationDetails rt client chat =
    Inr (format_details rt chat (filter (\<lambda>msg. chatId msg = chat) (messages_of result))
          (conversationDetails (filter (\<lambda>msg. chatId msg = chat) (messages_of result))))"
  using assms by (simp add: getConversationDetails_def rethrow_def Let_def)

lemma conv_chatId_spec_summary: "conv_chatId (spec_summary k messages) = k"
  by (simp add: spec_summary_def Let_def)

lemma in_conversations:
  assumes "conv \<in> set (conversations n messages)"
  shows "conv_chatId conv \<in> chatId ` set messages \<and> conv = spec_summary (conv_chatId conv) messages"
proof -
  obtain j where "conversations n messages =
      take j (sort_key (\<lambda>conv. - lastDate conv) (map snd (conversationMap messages)))"
    unfolding conversations_def using js_slice0_take by blast
  then have "conv \<in> set (sort_key (\<lambda>conv. - lastDate conv) (map snd (conversationMap messages)))"
    using assms by (metis in_set_takeD)
  then have "conv \<in> set (spec_groupByConversation messages)"
    by (simp add: conversationMap_refines)
  then obtain k where k: "k \<in> chatId ` set messages" and c: "conv = spec_summary k messages"
    by (auto simp: spec_groupByConversation_def set_uniq)
  then show ?thesis by (simp add: conv_chatId_spec_summary)
qed

lemma unread_spec_summary:
  "unreadCount (spec_summary k messages) =
     length (filter (\<lambda>m. chatId m = k \<and> \<not> isFromMe m \<and> \<not> isRead m) messages)"
proof -
  have "length (filter (\<lambda>m. \<not> isFromMe m \<and> \<not> isRead m) (filter (\<lambda>m. chatId m = k) messages)) =
      length (filter (\<lambda>m. chatId m = k \<and> \<not> isFromMe m \<and> \<not> isRead m) messages)"
    by (simp add: conj_commute)
  then show ?thesis by (simp add: spec_summary_def Let_def)
qed

lemma unread_conversationDetails:
  "d_unreadCount (conversationDetails (filter (\<lambda>msg. chatId msg = k) messages)) =
     length (filter (\<lambda>m. chatId m = k \<and> \<not> isFromMe m \<and> \<not> isRead m) messages)"
proof -
  have "length (filter (\<lambda>m. \<not> isFromMe m \<and> \<not> isRead m) (filter (\<lambda>m. chatId m = k) messages)) =
      length (filter (\<lambda>m. chatId m = k \<and> \<not> isFromMe m \<and> \<not> isRead m) messages)"
    by (simp add: conj_commute)
  then show ?thesis by (simp add: conversationDetails_def d_unreadCount_fold details_init_def)
qed

lemma last_spec_summary:
  assumes "k \<in> chatId ` set messages"
  shows "\<exists>m. first_latest (filter (\<lambda>m. chatId m = k) messages) = Some m \<and>
           lastMessage (spec_summary k messages) = text_or_placeholder m \<and>
           lastDate (spec_summary k messages) = date m"
proof -
  have "filter (\<lambda>m. chatId m = k) messages \<noteq> []" using assms by (auto simp: filter_empty_conv)
  then obtain m where m: "first_latest (filter (\<lambda>m. chatId m = k) messages) = Some m"
    using first_latest_nonempty by blast
  then show ?thesis by (simp add: spec_summary_def Let_def)
qed

lemma last_conversationDetails:
  assumes "chatMessages \<noteq> []"
  shows "\<exists>m. first_latest chatMessages = Some m \<and>
           d_lastMessage (conversationDetails chatMessages) = text_or_placeholder m \<and>
           d_lastDate (conversationDetails chatMessages) = Some (date m)"
proof -
  obtain r rest where c: "chatMessages = r # rest" using assms by (cases chatMessages) auto
  show ?thesis
    unfolding c using first_latest_later [of r rest] d_last_conversationDetails [of r rest] by blast
qed

subsection \<open>Decimal digits of the examples\<close>

lemma show_nat_1: "show_nat 1 = ''1''"
  by code_simp

lemma show_nat_2: "show_nat 2 = ''2''"
  by code_simp

lemma show_int_10: "show_int 10 = ''10''"
  by code_simp

lemma show_nat_Suc_0: "show_nat (Suc 0) = ''1''"
  using show_nat_1 by simp

lemma show_nat_Suc_Suc_0: "show_nat (Suc (Suc 0)) = ''2''"
  using show_nat_2 by (simp add: numeral_2_eq_2)

lemmas eval_op_defs = getConversations_def getConversationDetails_def rethrow_def limit_or_default_def
  conversations_filter_def details_filter_def example_sdk_def example_runtime_def
  format_conversation_def format_details_def conversations_def
  show_nat_1 show_nat_2 show_nat_Suc_0 show_nat_Suc_Suc_0 show_int_10

section \<open>The claims\<close>

text \<open>
  C3. For every message sequence and every conversation id in it, the unread count that
  the loop of \<open>getConversations\<close> leaves in the conversation's entry, and the one the
  loop of \<open>getConversationDetails\<close> computes over the records of that conversation,
  equal the number of the conversation's records that were not sent by the local user
  (\<open>isFromMe\<close> false) and are not read (\<open>isRead\<close> false). The two operations return
  these counts: on a snapshot that is not empty \<open>getConversations\<close> returns the
  rendering of summaries each of which carries the count of its conversation, shown as
  \<open>(n unread)\<close> when positive; for a chat id of the snapshot \<open>getConversationDetails\<close>
  returns the rendering of the accumulators over the records of that chat id, which ends
  with the lines \<open>Unread Count\<close>, with the count, and \<open>Total Messages\<close>.
\<close>

theorem unread_count:
  "(k \<in> chatId ` set messages \<longrightarrow>
      (\<exists>conv. map_of (conversationMap messages) k = Some conv \<and>
         unreadCount conv =
           length (filter (\<lambda>m. chatId m = k \<and> \<not> isFromMe m \<and> \<not> isRead m) messages))) \<and>
   d_unreadCount (conversationDetails (filter (\<lambda>msg. chatId msg = k) messages)) =
     length (filter (\<lambda>m. chatId m = k \<and> \<not> isFromMe m \<and> \<not> isRead m) messages) \<and>
   (js_ToNumber rt (limit_or_default args) = Inr n \<and>
    getMessages client (conversations_filter n) = Inr result \<and>
    messages_of result = messages \<and> messages \<noteq> [] \<longrightarrow>
      getConversations rt client args =
        Inr (js_join (newline @ newline @ ''---'' @ newline @ newline)
              (map format_conversation (conversations n messages))) \<and>
      (\<forall>conv \<in> set (conversations n messages).
         unreadCount conv =
           length (filter (\<lambda>m. chatId m = conv_chatId conv \<and> \<not> isFromMe m \<and> \<not> isRead m) messages) \<and>
         (\<exists>pre. format_conversation conv =
            pre @ (if 0 < length (filter (\<lambda>m. chatId m = conv_chatId conv \<and> \<not> isFromMe m \<and> \<not> isRead m) messages)
                   then '' ('' @ show_nat (length (filter (\<lambda>m. chatId m = conv_chatId conv \<and> \<not> isFromMe m \<and> \<not> isRead m) messages)) @ '' unread)''
                   else [])))) \<and>
   (k \<noteq> [] \<and> getMessages client details_filter = Inr result \<and>
    messages_of result = messages \<and> k \<in> chatId ` set messages \<longrightarrow>
      getConversationDetails rt client k =
        Inr (format_details rt k (filter (\<lambda>msg. chatId msg = k) messages)
              (conversationDetails (filter (\<lambda>msg. chatId msg = k) messages))) \<and>
      (\<exists>pre. getConversationDetails rt client k =
         Inr (pre @ ''Unread Count: ''
              @ show_nat (length (filter (\<lambda>m. chatId m = k \<and> \<not> isFromMe m \<and> \<not> isRead m) messages))
              @ newline @ ''Total Messages: ''
              @ show_nat (length (filter (\<lambda>msg. chatId msg = k) messages)))))"
proof -
  let ?count = "\<lambda>k. length (filter (\<lambda>m. chatId m = k \<and> \<not> isFromMe m \<and> \<not> isRead m) messages)"
  have 1: "k \<in> chatId ` set messages \<longrightarrow>
      (\<exists>conv. map_of (conversationMap messages) k = Some conv \<and> unreadCount conv = ?count k)"
    using conversationMap_entry unread_spec_summary by blast
  have 2: "d_unreadCount (conversationDetails (filter (\<lambda>msg. chatId msg = k) messages)) = ?count k"
    by (rule unread_conversationDetails)
  have 3: "getConversations rt client args =
        Inr (js_join (newline @ newline @ ''---'' @ newline @ newline)
              (map format_conversation (conversations n messages))) \<and>
      (\<forall>conv \<in> set (conversations n messages).
         unreadCount conv = ?count (conv_chatId conv) \<and>
         (\<exists>pre. format_conversation conv =
            pre @ (if 0 < ?count (conv_chatId conv)
                   then '' ('' @ show_nat (?count (conv_chatId conv)) @ '' unread)'' else [])))"
    if h: "js_ToNumber rt (limit_or_default args) = Inr n"
      "getMessages client (conversations_filter n) = Inr result"
      "messages_of result = messages" "messages \<noteq> []"
  proof -
    have out: "getConversations rt client args =
        Inr (js_join (newline @ newline @ ''---'' @ newline @ newline)
              (map format_conversation (conversations n messages)))"
      using getConversations_output [OF h(1) h(2)] h(3) h(4) by simp
    have each: "unreadCount conv = ?count (conv_chatId conv) \<and>
         (\<exists>pre. format_conversation conv =
            pre @ (if 0 < ?count (conv_chatId conv)
                   then '' ('' @ show_nat (?count (conv_chatId conv)) @ '' unread)'' else []))"
      if c: "conv \<in> set (conversations n messages)" for conv
    proof -
      have u: "unreadCount conv = ?count (conv_chatId conv)"
        using in_conversations [OF c] unread_spec_summary [of "conv_chatId conv" messages] by simp
      show ?thesis
      proof (intro conjI exI)
        show "unreadCount conv = ?count (conv_chatId conv)" by (rule u)
        show "format_conversation conv =
          (''Chat ID: '' @ conv_chatId conv @ newline
           @ ''Participants: '' @ str_or (js_join '', '' (participants conv)) ''Unknown'' @ newline
           @ ''Last Message: '' @ lastMessage conv)
          @ (if 0 < ?count (conv_chatId conv)
             then '' ('' @ show_nat (?count (conv_chatId conv)) @ '' unread)'' else [])"
          unfolding u [symmetric] by (simp add: format_conversation_def Let_def)
      qed
    qed
    show ?thesis using out each by blast
  qed
  have 4: "getConversationDetails rt client k =
        Inr (format_details rt k (filter (\<lambda>msg. chatId msg = k) messages)
              (conversationDetails (filter (\<lambda>msg. chatId msg = k) messages))) \<and>
      (\<exists>pre. getConversationDetails rt client k =
         Inr (pre @ ''Unread Count: '' @ show_nat (?count k)
              @ newline @ ''Total Messages: ''
              @ show_nat (length (filter (\<lambda>msg. chatId msg = k) messages))))"
    if h: "k \<noteq> []" "getMessages client details_filter = Inr result"
      "messages_of result = messages" "k \<in> chatId ` set messages"
  proof -
    let ?records = "filter (\<lambda>msg. chatId msg = k) messages"
    have ne: "filter (\<lambda>msg. chatId msg = k) (messages_of result) \<noteq> []"
      using h(3) h(4) by (auto simp: filter_empty_conv)
    have out: "getConversationDetails rt client k =
        Inr (format_details rt k ?records (conversationDetails ?records))"
      using getConversationDetails_output [OF h(1) h(2) ne] h(3) by simp
    let ?d = "conversationDetails ?records"
    have fmt: "format_details rt k ?records ?d =
        (''Chat ID: '' @ k @ newline
         @ ''Type: '' @ (if d_isGroupChat ?d then ''Group Chat'' else ''1-on-1'') @ newline
         @ ''Participants: '' @ str_or (js_join '', '' (d_participants ?d)) ''Unknown'' @ newline
         @ ''Last Message: '' @ d_lastMessage ?d @ newline
         @ ''Last Message Date: ''
         @ (case d_lastDate ?d of Some t \<Rightarrow> toLocaleString rt t | None \<Rightarrow> ''Unknown'') @ newline)
        @ ''Unread Count: '' @ show_nat (?count k)
        @ newline @ ''Total Messages: '' @ show_nat (length ?records)"
      unfolding 2 [symmetric] by (simp add: format_details_def Let_def)
    show ?thesis
    proof (intro conjI exI)
      show "getConversationDetails rt client k = Inr (format_details rt k ?records ?d)" by (rule out)
      show "getConversationDetails rt client k =
         Inr ((''Chat ID: '' @ k @ newline
         @ ''Type: '' @ (if d_isGroupChat ?d then ''Group Chat'' else ''1-on-1'') @ newline
         @ ''Participants: '' @ str_or (js_join '', '' (d_participants ?d)) ''Unknown'' @ newline
         @ ''Last Message: '' @ d_lastMessage ?d @ newline
         @ ''Last Message Date: ''
         @ (case d_lastDate ?d of Some t \<Rightarrow> toLocaleString rt t | None \<Rightarrow> ''Unknown'') @ newline)
        @ ''Unread Count: '' @ show_nat (?count k)
        @ newline @ ''Total Messages: '' @ show_nat (length ?records))"
        unfolding out fmt by (rule refl)
    qed
  qed
  show ?thesis using 1 2 3 4 by blast
qed

text \<open>
  On the example snapshot, conversation \<open>a\<close> has two records, one of them unread and
  from another sender; both operations show the count 1.
\<close>

theorem unread_count_witness:
  "''a'' \<in> chatId ` set example_messages \<and> ''a'' \<noteq> [] \<and> example_messages \<noteq> [] \<and>
   js_ToNumber example_runtime (limit_or_default (JObj [])) = Inr (Fin 50) \<and>
   getMessages (example_sdk example_messages) (conversations_filter (Fin 50)) =
     Inr (ResultArray example_messages) \<and>
   getMessages (example_sdk example_messages) details_filter = Inr (ResultArray example_messages) \<and>
   map_of (conversationMap example_messages) ''a'' =
     Some \<lparr>conv_chatId = ''a'', lastMessage = ''first'', lastDate = 10,
            participants = [''alice''], unreadCount = 1\<rparr> \<and>
   length (filter (\<lambda>m. chatId m = ''a'' \<and> \<not> isFromMe m \<and> \<not> isRead m) example_messages) = 1 \<and>
   d_unreadCount (conversationDetails (filter (\<lambda>msg. chatId msg = ''a'') example_messages)) = 1 \<and>
   getConversations example_runtime (example_sdk example_messages) (JObj []) =
     Inr (''Chat ID: b'' @ newline @ ''Participants: bob'' @ newline @ ''Last Message: newest''
          @ newline @ newline @ ''---'' @ newline @ newline
          @ ''Chat ID: a'' @ newline @ ''Participants: alice'' @ newline
          @ ''Last Message: first (1 unread)'') \<and>
   getConversationDetails example_runtime (example_sdk example_messages) ''a'' =
     Inr (''Chat ID: a'' @ newline @ ''Type: 1-on-1'' @ newline @ ''Participants: alice'' @ newline
          @ ''Last Message: first'' @ newline @ ''Last Message Date: 10'' @ newline
          @ ''Unread Count: 1'' @ newline @ ''Total Messages: 2'')"
  using unread_count [of "''a''" example_messages example_runtime "JObj []" "Fin 50"
      "example_sdk example_messages" "ResultArray example_messages"]
  by (simp add: eval_defs eval_op_defs)

text \<open>
  C4. In both loops the last message and its timestamp are replaced exactly when the
  record at hand has a strictly greater timestamp than the one kept (the first record of
  a conversation sets them). Hence, for every message sequence, the last message of a
  conversation is the text of the first record, in the order of the sequence, whose
  timestamp no other record of the conversation exceeds: among records with equal
  timestamps the first-seen one is retained. The two operations return it: every
  summary \<open>getConversations\<close> renders carries the text of that record of its
  conversation after \<open>Last Message:\<close>, and for a chat id of the snapshot
  \<open>getConversationDetails\<close> renders the text and the date of that record among the
  records of that chat id.
\<close>

theorem last_message_first_latest:
  "(k \<in> chatId ` set messages \<longrightarrow>
      (\<exists>conv m. map_of (conversationMap messages) k = Some conv \<and>
         first_latest (filter (\<lambda>m. chatId m = k) messages) = Some m \<and>
         lastMessage conv = text_or_placeholder m \<and> lastDate conv = date m)) \<and>
   (chatMessages \<noteq> [] \<longrightarrow>
      (\<exists>m. first_latest chatMessages = Some m \<and>
         d_lastMessage (conversationDetails chatMessages) = text_or_placeholder m \<and>
         d_lastDate (conversationDetails chatMessages) = Some (date m))) \<and>
   lastMessage (update_conv msg conv0) =
     (if lastDate conv0 < date msg then text_or_placeholder msg else lastMessage conv0) \<and>
   lastDate (update_conv msg conv0) =
     (if lastDate conv0 < date msg then date msg else lastDate conv0) \<and>
   (d_lastDate d = Some t \<longrightarrow>
      d_lastMessage (details_loop_body msg d) =
        (if t < date msg then text_or_placeholder msg else d_lastMessage d) \<and>
      d_lastDate (details_loop_body msg d) = Some (if t < date msg then date msg else t)) \<and>
   (js_ToNumber rt (limit_or_default args) = Inr n \<and>
    getMessages client (conversations_filter n) = Inr result \<and>
    messages_of result = messages \<and> messages \<noteq> [] \<longrightarrow>
      getConversations rt client args =
        Inr (js_join (newline @ newline @ ''---'' @ newline @ newline)
              (map format_conversation (conversations n messages))) \<and>
      (\<forall>conv \<in> set (conversations n messages).
         \<exists>m. first_latest (filter (\<lambda>m. chatId m = conv_chatId conv) messages) = Some m \<and>
             lastMessage conv = text_or_placeholder m \<and> lastDate conv = date m \<and>
             (\<exists>pre post. format_conversation conv =
                pre @ ''Last Message: '' @ text_or_placeholder m @ post))) \<and>
   (k \<noteq> [] \<and> getMessages client details_filter = Inr result \<and>
    messages_of result = messages \<and> k \<in> chatId ` set messages \<longrightarrow>
      (\<exists>m. first_latest (filter (\<lambda>msg. chatId msg = k) messages) = Some m \<and>
         getConversationDetails rt client k =
           Inr (format_details rt k (filter (\<lambda>msg. chatId msg = k) messages)
                 (conversationDetails (filter (\<lambda>msg. chatId msg = k) messages))) \<and>
         (\<exists>pre post. getConversationDetails rt client k =
            Inr (pre @ ''Last Message: '' @ text_or_placeholder m @ newline
                 @ ''Last Message Date: '' @ toLocaleString rt (date m) @ newline @ post))))"
proof -
  have 1: "k \<in> chatId ` set messages \<longrightarrow>
      (\<exists>conv m. map_of (conversationMap messages) k = Some conv \<and>
         first_latest (filter (\<lambda>m. chatId m = k) messages) = Some m \<and>
         lastMessage conv = text_or_placeholder m \<and> lastDate conv = date m)"
    using conversationMap_entry last_spec_summary by blast
  have 2: "chatMessages \<noteq> [] \<longrightarrow>
      (\<exists>m. first_latest chatMessages = Some m \<and>
         d_lastMessage (conversationDetails chatMessages) = text_or_placeholder m \<and>
         d_lastDate (conversationDetails chatMessages) = Some (date m))"
    using last_conversationDetails by blast
  have 3: "lastMessage (update_conv msg conv0) =
     (if lastDate conv0 < date msg then text_or_placeholder msg else lastMessage conv0)"
    "lastDate (update_conv msg conv0) =
     (if lastDate conv0 < date msg then date msg else lastDate conv0)"
    by (simp_all add: update_conv_def Let_def)
  have 4: "d_lastMessage (details_loop_body msg d) =
        (if t < date msg then text_or_placeholder msg else d_lastMessage d) \<and>
      d_lastDate (details_loop_body msg d) = Some (if t < date msg then date msg else t)"
    if "d_lastDate d = Some t"
    using that by (simp add: details_loop_body_def Let_def)
  have 5: "getConversations rt client args =
        Inr (js_join (newline @ newline @ ''---'' @ newline @ newline)
              (map format_conversation (conversations n messages))) \<and>
      (\<forall>conv \<in> set (conversations n messages).
         \<exists>m. first_latest (filter (\<lambda>m. chatId m = conv_chatId conv) messages) = Some m \<and>
             lastMessage conv = text_or_placeholder m \<and> lastDate conv = date m \<and>
             (\<exists>pre post. format_conversation conv =
                pre @ ''Last Message: '' @ text_or_placeholder m @ post))"
    if h: "js_ToNumber rt (limit_or_default args) = Inr n"
      "getMessages client (conversations_filter n) = Inr result"
      "messages_of result = messages" "messages \<noteq> []"
  proof -
    have out: "getConversations rt client args =
        Inr (js_join (newline @ newline @ ''---'' @ newline @ newline)
              (map format_conversation (conversations n messages)))"
      using getConversations_output [OF h(1) h(2)] h(3) h(4) by simp
    have each: "\<exists>m. first_latest (filter (\<lambda>m. chatId m = conv_chatId conv) messages) = Some m \<and>
             lastMessage conv = text_or_placeholder m \<and> lastDate conv = date m \<and>
             (\<exists>pre post. format_conversation conv =
                pre @ ''Last Message: '' @ text_or_placeholder m @ post)"
      if c: "conv \<in> set (conversations n messages)" for conv
    proof -
      obtain m where m: "first_latest (filter (\<lambda>m. chatId m = conv_chatId conv) messages) = Some m"
        and lm: "lastMessage conv = text_or_placeholder m" and ld: "lastDate conv = date m"
        using in_conversations [OF c] last_spec_summary [of "conv_chatId conv" messages] by metis
      show ?thesis
      proof (intro conjI exI)
        show "first_latest (filter (\<lambda>m. chatId m = conv_chatId conv) messages) = Some m" by (rule m)
        show "lastMessage conv = text_or_placeholder m" by (rule lm)
        show "lastDate conv = date m" by (rule ld)
        show "format_conversation conv =
          (''Chat ID: '' @ conv_chatId conv @ newline
           @ ''Participants: '' @ str_or (js_join '', '' (participants conv)) ''Unknown'' @ newline)
          @ ''Last Message: '' @ text_or_placeholder m
          @ (if 0 < unreadCount conv then '' ('' @ show_nat (unreadCount conv) @ '' unread)'' else [])"
          unfolding lm [symmetric] by (simp add: format_conversation_def Let_def)
      qed
    qed
    show ?thesis using out each by blast
  qed
  have 6: "\<exists>m. first_latest (filter (\<lambda>msg. chatId msg = k) messages) = Some m \<and>
         getConversationDetails rt client k =
           Inr (format_details rt k (filter (\<lambda>msg. chatId msg = k) messages)
                 (conversationDetails (filter (\<lambda>msg. chatId msg = k) messages))) \<and>
         (\<exists>pre post. getConversationDetails rt client k =
            Inr (pre @ ''Last Message: '' @ text_or_placeholder m @ newline
                 @ ''Last Message Date: '' @ toLocaleString rt (date m) @ newline @ post))"
    if h: "k \<noteq> []" "getMessages client details_filter = Inr result"
      "messages_of result = messages" "k \<in> chatId ` set messages"
  proof -
    let ?records = "filter (\<lambda>msg. chatId msg = k) messages"
    let ?d = "conversationDetails ?records"
    have ne: "filter (\<lambda>msg. chatId msg = k) (messages_of result) \<noteq> []"
      using h(3) h(4) by (auto simp: filter_empty_conv)
    then have ne': "?records \<noteq> []" using h(3) by simp
    have out: "getConversationDetails rt client k = Inr (format_details rt k ?records ?d)"
      using getConversationDetails_output [OF h(1) h(2) ne] h(3) by simp
    obtain m where m: "first_latest ?records = Some m"
      and lm: "d_lastMessage ?d = text_or_placeholder m" and ld: "d_lastDate ?d = Some (date m)"
      using last_conversationDetails [OF ne'] by blast
    have fmt: "format_details rt k ?records ?d =
        (''Chat ID: '' @ k @ newline
         @ ''Type: '' @ (if d_isGroupChat ?d then ''Group Chat'' else ''1-on-1'') @ newline
         @ ''Participants: '' @ str_or (js_join '', '' (d_participants ?d)) ''Unknown'' @ newline)
        @ ''Last Message: '' @ text_or_placeholder m @ newline
        @ ''Last Message Date: '' @ toLocaleString rt (date m) @ newline
        @ (''Unread Count: '' @ show_nat (d_unreadCount ?d) @ newline
           @ ''Total Messages: '' @ show_nat (length ?records))"
      by (simp add: format_details_def Let_def lm ld)
    show ?thesis
    proof (intro conjI exI)
      show "first_latest ?records = Some m" by (rule m)
      show "getConversationDetails rt client k = Inr (format_details rt k ?records ?d)" by (rule out)
      show "getConversationDetails rt client k =
        Inr ((''Chat ID: '' @ k @ newline
         @ ''Type: '' @ (if d_isGroupChat ?d then ''Group Chat'' else ''1-on-1'') @ newline
         @ ''Participants: '' @ str_or (js_join '', '' (d_participants ?d)) ''Unknown'' @ newline)
        @ ''Last Message: '' @ text_or_placeholder m @ newline
        @ ''Last Message Date: '' @ toLocaleString rt (date m) @ newline
        @ (''Unread Count: '' @ show_nat (d_unreadCount ?d) @ newline
           @ ''Total Messages: '' @ show_nat (length ?records)))"
        unfolding out fmt by (rule refl)
    qed
  qed
  show ?thesis using 1 2 3 4 5 6 by blast
qed

text \<open>
  On the example snapshot the two records of conversation \<open>a\<close> carry the timestamp 10;
  the text of the first one is kept, and both operations show it.
\<close>

theorem last_message_first_latest_witness:
  "''a'' \<in> chatId ` set example_messages \<and> ''a'' \<noteq> [] \<and> example_messages \<noteq> [] \<and>
   js_ToNumber example_runtime (limit_or_default (JObj [])) = Inr (Fin 50) \<and>
   getMessages (example_sdk example_messages) (conversations_filter (Fin 50)) =
     Inr (ResultArray example_messages) \<and>
   getMessages (example_sdk example_messages) details_filter = Inr (ResultArray example_messages) \<and>
   map_of (conversationMap example_messages) ''a'' =
     Some \<lparr>conv_chatId = ''a'', lastMessage = ''first'', lastDate = 10,
            participants = [''alice''], unreadCount = 1\<rparr> \<and>
   map date (filter (\<lambda>m. chatId m = ''a'') example_messages) = [10, 10] \<and>
   map text_or_placeholder (filter (\<lambda>m. chatId m = ''a'') example_messages) = [''first'', ''second''] \<and>
   d_lastMessage (conversationDetails (filter (\<lambda>m. chatId m = ''a'') example_messages)) = ''first'' \<and>
   d_lastDate (conversationDetails (filter (\<lambda>m. chatId m = ''a'') example_messages)) = Some 10 \<and>
   getConversations example_runtime (example_sdk example_messages) (JObj []) =
     Inr (''Chat ID: b'' @ newline @ ''Participants: bob'' @ newline @ ''Last Message: newest''
          @ newline @ newline @ ''---'' @ newline @ newline
          @ ''Chat ID: a'' @ newline @ ''Participants: alice'' @ newline
          @ ''Last Message: first (1 unread)'') \<and>
   getConversationDetails example_runtime (example_sdk example_messages) ''a'' =
     Inr (''Chat ID: a'' @ newline @ ''Type: 1-on-1'' @ newline @ ''Participants: alice'' @ newline
          @ ''Last Message: first'' @ newline @ ''Last Message Date: 10'' @ newline
          @ ''Unread Count: 1'' @ newline @ ''Total Messages: 2'')"
  using last_message_first_latest [of "''a''" example_messages
      "filter (\<lambda>m. chatId m = ''a'') example_messages" "hd example_messages"
      "\<lparr>conv_chatId = ''a'', lastMessage = ''first'', lastDate = 10, participants = [''alice''], unreadCount = 1\<rparr>"
      "details_loop_body (hd example_messages) details_init" 10
      example_runtime "JObj []" "Fin 50" "example_sdk example_messages" "ResultArray example_messages"]
  by (simp add: eval_defs eval_op_defs first_latest_def)

text \<open>
  C9. For every message sequence, the participants of a conversation, in the entry built
  by \<open>getConversations\<close> and in the set built by \<open>getConversationDetails\<close>, are exactly
  the senders of the conversation's records whose \<open>isFromMe\<close> flag is false. Hence a
  handle \<open>me\<close> that is the sender only of records flagged \<open>isFromMe\<close> is in no
  participant set.
\<close>

theorem participants_exclude_local_user:
  "(k \<in> chatId ` set messages \<longrightarrow>
      (\<exists>conv. map_of (conversationMap messages) k = Some conv \<and>
         set (participants conv) = sender ` {m \<in> set messages. chatId m = k \<and> \<not> isFromMe m} \<and>
         ((\<forall>m \<in> set messages. sender m = me \<longrightarrow> isFromMe m) \<longrightarrow> me \<notin> set (participants conv)))) \<and>
   set (d_participants (conversationDetails chatMessages)) =
     sender ` {m \<in> set chatMessages. \<not> isFromMe m} \<and>
   ((\<forall>m \<in> set chatMessages. sender m = me \<longrightarrow> isFromMe m) \<longrightarrow>
      me \<notin> set (d_participants (conversationDetails chatMessages)))"
proof -
  have 1: "\<exists>conv. map_of (conversationMap messages) k = Some conv \<and>
         set (participants conv) = sender ` {m \<in> set messages. chatId m = k \<and> \<not> isFromMe m} \<and>
         ((\<forall>m \<in> set messages. sender m = me \<longrightarrow> isFromMe m) \<longrightarrow> me \<notin> set (participants conv))"
    if k: "k \<in> chatId ` set messages"
  proof -
    have "(\<forall>m \<in> set messages. sender m = me \<longrightarrow> isFromMe m) \<longrightarrow>
        me \<notin> set (participants (spec_summary k messages))"
      unfolding participants_spec_summary by auto
    then show ?thesis using conversationMap_entry [OF k] participants_spec_summary by blast
  qed
  have 2: "(\<forall>m \<in> set chatMessages. sender m = me \<longrightarrow> isFromMe m) \<longrightarrow>
      me \<notin> set (d_participants (conversationDetails chatMessages))"
    unfolding participants_conversationDetails by auto
  show ?thesis using 1 2 participants_conversationDetails by blast
qed

text \<open>
  On the example snapshot the handle \<open>me\<close> sends in conversation \<open>a\<close>, on a record
  flagged \<open>isFromMe\<close>; the participants of \<open>a\<close> are \<open>alice\<close> alone.
\<close>

theorem participants_exclude_local_user_witness:
  "''a'' \<in> chatId ` set example_messages \<and>
   map sender (filter (\<lambda>m. \<not> isFromMe m) example_messages) = [''alice'', ''bob''] \<and>
   map_of (conversationMap example_messages) ''a'' =
     Some \<lparr>conv_chatId = ''a'', lastMessage = ''first'', lastDate = 10,
            participants = [''alice''], unreadCount = 1\<rparr> \<and>
   ''me'' \<in> sender ` set example_messages \<and>
   d_participants (conversationDetails (filter (\<lambda>m. chatId m = ''a'') example_messages)) = [''alice'']"
  using participants_exclude_local_user [of "''a''" example_messages "''me''"
      "filter (\<lambda>m. chatId m = ''a'') example_messages"]
  by (simp add: eval_defs)




text \<open>
  C1. Every handler ends in the same \<open>catch\<close>: for each of the four handlers, when the
  arguments pass the handler's checks and the client method throws \<open>e\<close>, the handler
  returns the result with \<open>isError\<close> true whose text is \<open>Error: \<close> followed by the
  message of \<open>e\<close>; and whenever a handler's result has \<open>isError\<close> true, it is such a
  result. A handler is a total function into results: nothing is thrown past it.
\<close>

theorem handlers_catch_all:
  "(truthy args \<and> isSendMessageArgs args \<and> sendMessage rt client args = Inl e \<longrightarrow>
      handleSendMessageTool rt client args = error_result (error_message e)) \<and>
   (truthy args \<and> isReadMessagesArgs args \<and> readMessages rt client args = Inl e \<longrightarrow>
      handleReadMessagesTool rt client args = error_result (error_message e)) \<and>
   (truthy args \<and> isGetConversationsArgs args \<and> getConversations rt client args = Inl e \<longrightarrow>
      handleGetConversationsTool rt client args = error_result (error_message e)) \<and>
   (args = JObj kvs \<and> map_of kvs ''chatId'' = Some (JStr chat) \<and>
    getConversationDetails rt client chat = Inl e \<longrightarrow>
      handleGetConversationDetailsTool rt client args = error_result (error_message e)) \<and>
   (\<forall>r \<in> {handleSendMessageTool rt client args, handleReadMessagesTool rt client args,
            handleGetConversationsTool rt client args, handleGetConversationDetailsTool rt client args}.
      isError r \<longrightarrow> (\<exists>cause. r = error_result cause)) \<and>
   error_result cause =
     \<lparr>content = [\<lparr>item_type = ''text'', item_text = ''Error: '' @ cause\<rparr>], isError = True\<rparr>"
proof -
  have t: "isError (tool_result x) \<longrightarrow> (\<exists>cause. tool_result x = error_result cause)" for x
    by (cases x) (simp_all add: tool_result_def error_result_def)
  have 5: "\<forall>r \<in> {handleSendMessageTool rt client args, handleReadMessagesTool rt client args,
            handleGetConversationsTool rt client args, handleGetConversationDetailsTool rt client args}.
      isError r \<longrightarrow> (\<exists>cause. r = error_result cause)"
    unfolding handleSendMessageTool_def handleReadMessagesTool_def handleGetConversationsTool_def
      handleGetConversationDetailsTool_def using t by blast
  have 1: "truthy args \<and> isSendMessageArgs args \<and> sendMessage rt client args = Inl e \<longrightarrow>
      handleSendMessageTool rt client args = error_result (error_message e)"
    by (simp add: handleSendMessageTool_def tool_result_Inl)
  have 2: "truthy args \<and> isReadMessagesArgs args \<and> readMessages rt client args = Inl e \<longrightarrow>
      handleReadMessagesTool rt client args = error_result (error_message e)"
    by (simp add: handleReadMessagesTool_def tool_result_Inl)
  have 3: "truthy args \<and> isGetConversationsArgs args \<and> getConversations rt client args = Inl e \<longrightarrow>
      handleGetConversationsTool rt client args = error_result (error_message e)"
    by (simp add: handleGetConversationsTool_def tool_result_Inl)
  have 4: "args = JObj kvs \<and> map_of kvs ''chatId'' = Some (JStr chat) \<and>
    getConversationDetails rt client chat = Inl e \<longrightarrow>
      handleGetConversationDetailsTool rt client args = error_result (error_message e)"
    by (simp add: handleGetConversationDetailsTool_def tool_result_Inl)
  have 6: "error_result cause =
     \<lparr>content = [\<lparr>item_type = ''text'', item_text = ''Error: '' @ cause\<rparr>], isError = True\<rparr>"
    by (simp add: error_result_def)
  show ?thesis using 1 2 3 4 5 6 by blast
qed

text \<open>With an SDK whose \<open>send\<close> and \<open>getMessages\<close> fail, each handler reports the cause.\<close>

theorem handlers_catch_all_witness:
  "truthy (JObj [(''recipient'', JStr ''+15551234567''), (''text'', JStr ''hi''), (''chatId'', JStr ''a'')]) \<and>
   isSendMessageArgs (JObj [(''recipient'', JStr ''+15551234567''), (''text'', JStr ''hi''), (''chatId'', JStr ''a'')]) \<and>
   sendMessage example_runtime failing_sdk (JObj [(''recipient'', JStr ''+15551234567''), (''text'', JStr ''hi''), (''chatId'', JStr ''a'')]) =
     Inl (ErrorObj ''Failed to send message: not delivered'') \<and>
   handleSendMessageTool example_runtime failing_sdk
       (JObj [(''recipient'', JStr ''+15551234567''), (''text'', JStr ''hi''), (''chatId'', JStr ''a'')]) =
     error_result ''Failed to send message: not delivered'' \<and>
   handleReadMessagesTool example_runtime failing_sdk
       (JObj [(''recipient'', JStr ''+15551234567''), (''text'', JStr ''hi''), (''chatId'', JStr ''a'')]) =
     error_result ''Failed to read messages: database is locked'' \<and>
   handleGetConversationsTool example_runtime failing_sdk
       (JObj [(''recipient'', JStr ''+15551234567''), (''text'', JStr ''hi''), (''chatId'', JStr ''a'')]) =
     error_result ''Failed to get conversations: database is locked'' \<and>
   handleGetConversationDetailsTool example_runtime failing_sdk
       (JObj [(''recipient'', JStr ''+15551234567''), (''text'', JStr ''hi''), (''chatId'', JStr ''a'')]) =
     error_result ''Failed to get conversation details: database is locked''"
  using
    handlers_catch_all [where client = failing_sdk and rt = example_runtime
      and args = "JObj [(''recipient'', JStr ''+15551234567''), (''text'', JStr ''hi''), (''chatId'', JStr ''a'')]"
      and kvs = "[(''recipient'', JStr ''+15551234567''), (''text'', JStr ''hi''), (''chatId'', JStr ''a'')]"
      and chat = "''a''" and e = "ErrorObj ''Failed to send message: not delivered''"]
    handlers_catch_all [where client = failing_sdk and rt = example_runtime
      and args = "JObj [(''recipient'', JStr ''+15551234567''), (''text'', JStr ''hi''), (''chatId'', JStr ''a'')]"
      and kvs = "[(''recipient'', JStr ''+15551234567''), (''text'', JStr ''hi''), (''chatId'', JStr ''a'')]"
      and chat = "''a''" and e = "ErrorObj ''Failed to read messages: database is locked''"]
    handlers_catch_all [where client = failing_sdk and rt = example_runtime
      and args = "JObj [(''recipient'', JStr ''+15551234567''), (''text'', JStr ''hi''), (''chatId'', JStr ''a'')]"
      and kvs = "[(''recipient'', JStr ''+15551234567''), (''text'', JStr ''hi''), (''chatId'', JStr ''a'')]"
      and chat = "''a''" and e = "ErrorObj ''Failed to get conversations: database is locked''"]
    handlers_catch_all [where client = failing_sdk and rt = example_runtime
      and args = "JObj [(''recipient'', JStr ''+15551234567''), (''text'', JStr ''hi''), (''chatId'', JStr ''a'')]"
      and kvs = "[(''recipient'', JStr ''+15551234567''), (''text'', JStr ''hi''), (''chatId'', JStr ''a'')]"
      and chat = "''a''" and e = "ErrorObj ''Failed to get conversation details: database is locked''"]
  by (simp add: isSendMessageArgs_def isReadMessagesArgs_def isGetConversationsArgs_def
      sendMessage_def readMessages_def read_filter_def limit_or_default_def getConversations_def getConversationDetails_def to_string_def conversations_filter_def
      rethrow_def failing_sdk_def Let_def)



text \<open>
  C8. For every send-message argument object, a result that is not error-flagged needs
  \<open>recipient\<close> and \<open>text\<close> present as non-empty strings (the type guard checks
  presence and type, the client method emptiness); when \<open>text\<close> is missing the result
  is error-flagged with the text
  \<open>Error: Invalid arguments for photon_send_message. Required: recipient, text\<close>; and
  with both present, non-empty, a recipient the SDK accepts and a delivery that
  succeeds, the result is \<open>Message sent successfully to recipient\<close>.
\<close>

theorem send_requires_recipient_and_text:
  "(\<not> isError (handleSendMessageTool rt client (JObj kvs)) \<longrightarrow>
      (\<exists>r t. map_of kvs ''recipient'' = Some (JStr r) \<and> map_of kvs ''text'' = Some (JStr t) \<and>
             r \<noteq> [] \<and> t \<noteq> [])) \<and>
   (map_of kvs ''text'' = None \<longrightarrow>
      handleSendMessageTool rt client (JObj kvs) =
        error_result ''Invalid arguments for photon_send_message. Required: recipient, text'') \<and>
   (map_of kvs ''recipient'' = Some (JStr r) \<and> map_of kvs ''text'' = Some (JStr t) \<and>
    r \<noteq> [] \<and> t \<noteq> [] \<and> asRecipient client (JStr r) = Inr v \<and> send client v (JStr t) = Inr () \<longrightarrow>
      handleSendMessageTool rt client (JObj kvs) = text_result (''Message sent successfully to '' @ r))"
proof -
  have 2: "map_of kvs ''text'' = None \<longrightarrow>
      handleSendMessageTool rt client (JObj kvs) =
        error_result ''Invalid arguments for photon_send_message. Required: recipient, text''"
    by (simp add: handleSendMessageTool_def isSendMessageArgs_def tool_result_Inl)
  have 3: "map_of kvs ''recipient'' = Some (JStr r) \<and> map_of kvs ''text'' = Some (JStr t) \<and>
    r \<noteq> [] \<and> t \<noteq> [] \<and> asRecipient client (JStr r) = Inr v \<and> send client v (JStr t) = Inr () \<longrightarrow>
      handleSendMessageTool rt client (JObj kvs) = text_result (''Message sent successfully to '' @ r)"
    by (simp add: handleSendMessageTool_def isSendMessageArgs_def sendMessage_def to_string_def rethrow_def tool_result_Inr)
  show ?thesis using send_accepted 2 3 by blast
qed

text \<open>
  Missing \<open>text\<close>, empty \<open>text\<close>, and the scenario of the specification:
  \<open>recipient = +15551234567\<close>, \<open>text = hi\<close>.
\<close>

theorem send_requires_recipient_and_text_witness:
  "map_of [(''recipient'', JStr ''+15551234567'')] ''text'' = None \<and>
   handleSendMessageTool example_runtime (example_sdk []) (JObj [(''recipient'', JStr ''+15551234567'')]) =
     error_result ''Invalid arguments for photon_send_message. Required: recipient, text'' \<and>
   isError (handleSendMessageTool example_runtime (example_sdk [])
     (JObj [(''recipient'', JStr ''+15551234567''), (''text'', JStr '''')])) \<and>
   \<not> isError (handleSendMessageTool example_runtime (example_sdk [])
     (JObj [(''recipient'', JStr ''+15551234567''), (''text'', JStr ''hi'')])) \<and>
   handleSendMessageTool example_runtime (example_sdk []) (JObj [(''recipient'', JStr ''+15551234567''), (''text'', JStr ''hi'')]) =
     text_result ''Message sent successfully to +15551234567''"
  using
    send_requires_recipient_and_text [of example_runtime "example_sdk []" "[(''recipient'', JStr ''+15551234567'')]"]
    send_requires_recipient_and_text [of example_runtime "example_sdk []"
      "[(''recipient'', JStr ''+15551234567''), (''text'', JStr ''hi'')]" "''+15551234567''" "''hi''" "''+15551234567''"]
    send_requires_recipient_and_text [of example_runtime "example_sdk []"
      "[(''recipient'', JStr ''+15551234567''), (''text'', JStr '''')]"]
  by (simp add: example_sdk_def text_result_def error_result_def handleSendMessageTool_def
      isSendMessageArgs_def sendMessage_def to_string_def rethrow_def tool_result_def)

text \<open>
  C5, as stated: whenever a field of the read-messages arguments is present, its type is
  checked, and a mistyped argument object is rejected with a failure naming the field.
  The guard \<open>isReadMessagesArgs\<close> checks only that the arguments are an object: with
  \<open>unreadOnly\<close> the string \<open>yes\<close> the handler calls the SDK with \<open>unreadOnly: true\<close>
  and returns a result that is not error-flagged.
\<close>

theorem read_mistyped_field_counterexample:
  "spec_read_args_mistyped (JObj [(''unreadOnly'', JStr ''yes'')]) \<and>
   read_filter example_runtime (example_sdk []) (JObj [(''unreadOnly'', JStr ''yes'')]) =
     Inr \<lparr>excludeOwnMessages = False, filter_sender = None, filter_unreadOnly = Some True,
          filter_limit = Some (JNum (Fin 50))\<rparr> \<and>
   handleReadMessagesTool example_runtime (example_sdk []) (JObj [(''unreadOnly'', JStr ''yes'')]) =
     \<lparr>content = [\<lparr>item_type = ''text'', item_text = ''No messages found''\<rparr>], isError = False\<rparr>"
  by (simp add: spec_read_args_mistyped_def spec_read_field_types_def handleReadMessagesTool_def
      isReadMessagesArgs_def readMessages_def read_filter_def limit_or_default_def rethrow_def
      example_sdk_def tool_result_def)

text \<open>
  C5, amended: for the read-messages operation all argument fields are optional and none
  is type-checked. The handler rejects only an argument value that is falsy
  (\<open>Error: No arguments provided\<close>) or truthy and not an object
  (\<open>Error: Invalid arguments for photon_read_messages\<close>); every object is passed to
  the client method, whose result depends on \<open>recipient\<close> and \<open>limit\<close> and on the
  truthiness of \<open>unreadOnly\<close> only.
\<close>

theorem read_arguments_not_type_checked:
  "(\<not> truthy args \<longrightarrow> handleReadMessagesTool rt client args = error_result ''No arguments provided'') \<and>
   (truthy args \<and> js_typeof args \<noteq> ''object'' \<longrightarrow>
      handleReadMessagesTool rt client args = error_result ''Invalid arguments for photon_read_messages'') \<and>
   (truthy args \<and> js_typeof args = ''object'' \<longrightarrow>
      handleReadMessagesTool rt client args = tool_result (readMessages rt client args)) \<and>
   (get_prop a ''recipient'' = get_prop b ''recipient'' \<and> get_prop a ''limit'' = get_prop b ''limit'' \<and>
    truthy (get_prop a ''unreadOnly'') = truthy (get_prop b ''unreadOnly'') \<longrightarrow>
      readMessages rt client a = readMessages rt client b)"
proof -
  have 1: "\<not> truthy args \<longrightarrow> handleReadMessagesTool rt client args = error_result ''No arguments provided''"
    by (simp add: handleReadMessagesTool_def tool_result_Inl)
  have 2: "truthy args \<and> js_typeof args \<noteq> ''object'' \<longrightarrow>
      handleReadMessagesTool rt client args = error_result ''Invalid arguments for photon_read_messages''"
    by (simp add: handleReadMessagesTool_def isReadMessagesArgs_def tool_result_Inl)
  have 3: "truthy args \<and> js_typeof args = ''object'' \<longrightarrow>
      handleReadMessagesTool rt client args = tool_result (readMessages rt client args)"
    by (cases args) (simp_all add: handleReadMessagesTool_def isReadMessagesArgs_def)
  have 4: "get_prop a ''recipient'' = get_prop b ''recipient'' \<and> get_prop a ''limit'' = get_prop b ''limit'' \<and>
    truthy (get_prop a ''unreadOnly'') = truthy (get_prop b ''unreadOnly'') \<longrightarrow>
      readMessages rt client a = readMessages rt client b"
    using read_filter_depends [of a b rt client] by (simp add: readMessages_def)
  show ?thesis using 1 2 3 4 by blast
qed

text \<open>
  No arguments, a string in place of the object, and \<open>unreadOnly\<close> as the string
  \<open>yes\<close>, which acts as \<open>true\<close>.
\<close>

theorem read_arguments_not_type_checked_witness:
  "\<not> truthy JUndefined \<and>
   handleReadMessagesTool example_runtime (example_sdk example_messages) JUndefined =
     error_result ''No arguments provided'' \<and>
   truthy (JStr ''all'') \<and> js_typeof (JStr ''all'') \<noteq> ''object'' \<and>
   handleReadMessagesTool example_runtime (example_sdk example_messages) (JStr ''all'') =
     error_result ''Invalid arguments for photon_read_messages'' \<and>
   truthy (get_prop (JObj [(''unreadOnly'', JStr ''yes'')]) ''unreadOnly'') =
     truthy (get_prop (JObj [(''unreadOnly'', JBool True)]) ''unreadOnly'') \<and>
   handleReadMessagesTool example_runtime (example_sdk example_messages) (JObj [(''unreadOnly'', JStr ''yes'')]) =
     handleReadMessagesTool example_runtime (example_sdk example_messages) (JObj [(''unreadOnly'', JBool True)])"
proof -
  let ?sdk = "example_sdk example_messages"
  let ?yes = "JObj [(''unreadOnly'', JStr ''yes'')]"
  let ?true = "JObj [(''unreadOnly'', JBool True)]"
  have 1: "handleReadMessagesTool example_runtime ?sdk JUndefined = error_result ''No arguments provided''"
    using read_arguments_not_type_checked [of JUndefined example_runtime ?sdk ?yes ?true] by simp
  have 2: "handleReadMessagesTool example_runtime ?sdk (JStr ''all'') =
      error_result ''Invalid arguments for photon_read_messages''"
    using read_arguments_not_type_checked [of "JStr ''all''" example_runtime ?sdk ?yes ?true] by simp
  have 3: "handleReadMessagesTool example_runtime ?sdk ?yes = tool_result (readMessages example_runtime ?sdk ?yes)"
    "readMessages example_runtime ?sdk ?yes = readMessages example_runtime ?sdk ?true"
    using read_arguments_not_type_checked [of ?yes example_runtime ?sdk ?yes ?true] by simp_all
  have 4: "handleReadMessagesTool example_runtime ?sdk ?true = tool_result (readMessages example_runtime ?sdk ?true)"
    using read_arguments_not_type_checked [of ?true example_runtime ?sdk ?yes ?true] by simp
  show ?thesis using 1 2 3 4 by simp
qed

text \<open>
  C6. Whenever the snapshot obtained from the SDK has no matching message, the operation
  returns its sentinel text, as a result that is not error-flagged: \<open>readMessages\<close>
  returns \<open>No messages found\<close> and \<open>getConversations\<close> returns
  \<open>No conversations found\<close> when the snapshot is empty, and
  \<open>getConversationDetails\<close> with chat id \<open>X\<close> returns
  \<open>No messages found for chat ID: X\<close> when no record of the snapshot has that chat
  id. The SDK is queried once the filter is built: by \<open>readMessages\<close> when the
  recipient, if given, is accepted, by \<open>getConversations\<close> when the limit converts to
  a number, and by \<open>getConversationDetails\<close> for a chat id that is not the empty
  string.
\<close>

theorem empty_snapshot_sentinels:
  "(read_filter rt client args = Inr f \<and> getMessages client f = Inr result \<and> messages_of result = [] \<longrightarrow>
      readMessages rt client args = Inr ''No messages found'' \<and>
      (truthy args \<and> isReadMessagesArgs args \<longrightarrow>
         handleReadMessagesTool rt client args = text_result ''No messages found'')) \<and>
   (js_ToNumber rt (limit_or_default args) = Inr n \<and>
    getMessages client (conversations_filter n) = Inr result \<and>
    messages_of result = [] \<longrightarrow>
      getConversations rt client args = Inr ''No conversations found'' \<and>
      (truthy args \<and> isGetConversationsArgs args \<longrightarrow>
         handleGetConversationsTool rt client args = text_result ''No conversations found'')) \<and>
   (chat \<noteq> [] \<and> getMessages client details_filter = Inr result \<and>
    filter (\<lambda>msg. chatId msg = chat) (messages_of result) = [] \<longrightarrow>
      getConversationDetails rt client chat = Inr (''No messages found for chat ID: '' @ chat) \<and>
      handleGetConversationDetailsTool rt client (JObj [(''chatId'', JStr chat)]) =
        text_result (''No messages found for chat ID: '' @ chat))"
proof -
  have 1: "readMessages rt client args = Inr ''No messages found'' \<and>
      (truthy args \<and> isReadMessagesArgs args \<longrightarrow>
         handleReadMessagesTool rt client args = text_result ''No messages found'')"
    if "read_filter rt client args = Inr f" "getMessages client f = Inr result" "messages_of result = []"
    using that by (simp add: readMessages_def rethrow_def handleReadMessagesTool_def tool_result_Inr)
  have 2: "getConversations rt client args = Inr ''No conversations found'' \<and>
      (truthy args \<and> isGetConversationsArgs args \<longrightarrow>
         handleGetConversationsTool rt client args = text_result ''No conversations found'')"
    if "js_ToNumber rt (limit_or_default args) = Inr n"
      "getMessages client (conversations_filter n) = Inr result" "messages_of result = []"
    using that by (simp add: getConversations_def rethrow_def handleGetConversationsTool_def tool_result_Inr)
  have 3: "getConversationDetails rt client chat = Inr (''No messages found for chat ID: '' @ chat) \<and>
      handleGetConversationDetailsTool rt client (JObj [(''chatId'', JStr chat)]) =
        text_result (''No messages found for chat ID: '' @ chat)"
    if "chat \<noteq> []" "getMessages client details_filter = Inr result"
      "filter (\<lambda>msg. chatId msg = chat) (messages_of result) = []"
    using that
    by (simp add: getConversationDetails_def rethrow_def handleGetConversationDetailsTool_def tool_result_Inr)
  show ?thesis using 1 2 3 by blast
qed

text \<open>
  An empty snapshot for read and list, and the scenario of the specification:
  \<open>chatId = abc\<close> when no record has that id. A limit that has no primitive value
  is an error before the SDK is queried, not a sentinel.
\<close>

theorem empty_snapshot_sentinels_witness:
  "read_filter example_runtime (example_sdk []) (JObj []) =
     Inr \<lparr>excludeOwnMessages = False, filter_sender = None, filter_unreadOnly = None,
          filter_limit = Some (JNum (Fin 50))\<rparr> \<and>
   getMessages (example_sdk []) \<lparr>excludeOwnMessages = False, filter_sender = None, filter_unreadOnly = None,
          filter_limit = Some (JNum (Fin 50))\<rparr> = Inr (ResultArray []) \<and>
   messages_of (ResultArray []) = [] \<and>
   handleReadMessagesTool example_runtime (example_sdk []) (JObj []) = text_result ''No messages found'' \<and>
   js_ToNumber example_runtime (limit_or_default (JObj [])) = Inr (Fin 50) \<and>
   getMessages (example_sdk []) (conversations_filter (Fin 50)) = Inr (ResultArray []) \<and>
   handleGetConversationsTool example_runtime (example_sdk []) (JObj []) =
     text_result ''No conversations found'' \<and>
   ''abc'' \<noteq> [] \<and>
   getMessages (example_sdk example_messages) details_filter = Inr (ResultArray example_messages) \<and>
   filter (\<lambda>msg. chatId msg = ''abc'') (messages_of (ResultArray example_messages)) = [] \<and>
   handleGetConversationDetailsTool example_runtime (example_sdk example_messages)
       (JObj [(''chatId'', JStr ''abc'')]) =
     text_result ''No messages found for chat ID: abc'' \<and>
   js_ToNumber example_runtime (JObj [(''toString'', JNum (Fin 1))]) =
     Inl (ErrorObj ''Cannot convert object to primitive value'') \<and>
   handleGetConversationsTool example_runtime (example_sdk [])
       (JObj [(''limit'', JObj [(''toString'', JNum (Fin 1))])]) =
     error_result ''Failed to get conversations: Cannot convert object to primitive value''"
  using
    empty_snapshot_sentinels [of example_runtime "example_sdk []" "JObj []"
      "\<lparr>excludeOwnMessages = False, filter_sender = None, filter_unreadOnly = None,
        filter_limit = Some (JNum (Fin 50))\<rparr>" "ResultArray []" "Fin 50" "''abc''"]
    empty_snapshot_sentinels [of example_runtime "example_sdk example_messages" "JObj []"
      "\<lparr>excludeOwnMessages = False, filter_sender = None, filter_unreadOnly = None,
        filter_limit = Some (JNum (Fin 50))\<rparr>" "ResultArray example_messages" "Fin 50" "''abc''"]
  by (simp add: example_sdk_def read_filter_def limit_or_default_def isReadMessagesArgs_def
      isGetConversationsArgs_def example_messages_def handleGetConversationsTool_def
      getConversations_def rethrow_def to_string_def example_runtime_def tool_result_Inl)

text \<open>
  C10. For every pair of get-conversations argument objects that differ at most in the
  value of \<open>offset\<close>, and the same SDK, \<open>getConversations\<close> and its handler return
  the same result: \<open>offset\<close> is never read, and the result of \<open>getConversations\<close>
  depends on the arguments through \<open>limit\<close> only.
\<close>

theorem offset_never_read:
  "((\<forall>k. k \<noteq> ''offset'' \<longrightarrow> map_of kvs k = map_of kvs' k) \<longrightarrow>
      getConversations rt client (JObj kvs) = getConversations rt client (JObj kvs') \<and>
      handleGetConversationsTool rt client (JObj kvs) = handleGetConversationsTool rt client (JObj kvs')) \<and>
   (get_prop a ''limit'' = get_prop b ''limit'' \<longrightarrow>
      getConversations rt client a = getConversations rt client b)"
proof -
  have 2: "getConversations rt client a = getConversations rt client b"
    if "get_prop a ''limit'' = get_prop b ''limit''" for a b
    using that by (simp add: getConversations_def limit_or_default_def)
  have 1: "getConversations rt client (JObj kvs) = getConversations rt client (JObj kvs') \<and>
      handleGetConversationsTool rt client (JObj kvs) = handleGetConversationsTool rt client (JObj kvs')"
    if h: "\<forall>k. k \<noteq> ''offset'' \<longrightarrow> map_of kvs k = map_of kvs' k"
  proof -
    have "map_of kvs ''limit'' = map_of kvs' ''limit''" using h by simp
    then have "get_prop (JObj kvs) ''limit'' = get_prop (JObj kvs') ''limit''" by simp
    then have "getConversations rt client (JObj kvs) = getConversations rt client (JObj kvs')" by (rule 2)
    then show ?thesis by (simp add: handleGetConversationsTool_def isGetConversationsArgs_def)
  qed
  show ?thesis using 1 2 by blast
qed

text \<open>Offsets 0 and 1 with the same limit.\<close>

theorem offset_never_read_witness:
  "filter (\<lambda>(k, v). k \<noteq> ''offset'') [(''limit'', JNum (Fin 1)), (''offset'', JNum (Fin 0))] =
     filter (\<lambda>(k, v). k \<noteq> ''offset'') [(''limit'', JNum (Fin 1)), (''offset'', JNum (Fin 1))] \<and>
   handleGetConversationsTool example_runtime (example_sdk example_messages)
       (JObj [(''limit'', JNum (Fin 1)), (''offset'', JNum (Fin 0))]) =
     handleGetConversationsTool example_runtime (example_sdk example_messages)
       (JObj [(''limit'', JNum (Fin 1)), (''offset'', JNum (Fin 1))])"
  using offset_never_read [of "[(''limit'', JNum (Fin 1)), (''offset'', JNum (Fin 0))]"
      "[(''limit'', JNum (Fin 1)), (''offset'', JNum (Fin 1))]" example_runtime
      "example_sdk example_messages"]
  by simp

end
